theory Spec2Isabelle
  imports Complex_Main
begin

section \<open>Extraction results\<close>

text \<open>
  The data that flows between the stages of \<^verbatim>\<open>video-extractor.js\<close> and into the
  scorer of \<^verbatim>\<open>extraction-logger.js\<close>. The source passes parsed JSON objects; the
  records keep the properties the code reads. A property that may be absent, null or
  of the wrong type is an \<open>option\<close>. JavaScript numbers are modelled as reals: sums,
  products and quotients are exact, so a statement about a score is a statement about
  the value the formula denotes, not about its binary64 rounding. Where the exact value
  sits on a threshold or on a rounding tie the code can fall on the other side: a score
  that is 0.8 over the reals can evaluate to 0.7999999999999999.
\<close>

text \<open>
  A frame as the model proposes it (no \<open>path\<close> yet) and as the pipeline returns it.
  \<open>timestamp\<close> is \<open>None\<close> when the property is absent or not a number, as on the
  frames of the frame-based fallback.
\<close>

record selected_frame =
  timestamp :: "real option"
  frame_type :: string
  frame_description :: string
  priority :: string
  path :: "string option"

text \<open>
  \<open>needsReview\<close> holds the truthiness of the property (the scorer only tests it with
  \<^verbatim>\<open>filter(i => i.needsReview)\<close>); \<open>confidence\<close> is \<open>None\<close> when the property is
  absent, as on every item of pass 1.
\<close>

record menu_item =
  item_name :: string
  category :: string
  price :: "real option"
  confidence :: "real option"
  needsReview :: bool

record menu_extraction =
  items :: "menu_item list"
  verified :: bool
  menuStyleNotes :: "string option"

record restaurant_info =
  name :: "string option"
  cuisineType :: "string option"
  info_description :: "string option"
  ambiance :: "string option"
  name_confidence :: "real option"

record style_profile =
  theme :: "string option"
  primaryColor :: "string option"
  secondaryColor :: "string option"
  mood :: "string option"
  fontStyle :: "string option"
  designNotes :: "string option"

record extraction_result =
  frames :: "selected_frame list"
  menuItems :: menu_extraction
  restaurantInfo :: restaurant_info
  style :: style_profile

section \<open>The quality scorer (\<^verbatim>\<open>ExtractionLogger.assessQuality\<close>)\<close>

datatype severity = critical | warning

datatype issue_category = menu | info | frames_category | style_category

text \<open>
  The message of an issue, one constructor per message of the source; a number that the
  source formats into the text is the constructor's argument (percentages are
  \<^verbatim>\<open>(x * 100).toFixed(0)\<close>).
\<close>

datatype issue_message =
    No_menu_items_found
  | Only_menu_items_found nat
  | All_menu_items_need_review
  | Low_average_confidence int
  | No_prices_detected_on_any_items
  | Restaurant_name_not_detected
  | Low_confidence_on_restaurant_name int
  | Cuisine_type_not_identified
  | No_frames_extracted
  | Only_frames_extracted nat
  | No_food_photos_detected
  | No_exterior_or_interior_shots
  | Using_default_styling

record issue =
  issue_type :: severity
  issue_category :: issue_category
  message :: issue_message

datatype rating = good | fair | poor

record scores =
  score_menu :: real
  score_restaurantInfo :: real
  score_frames :: real
  score_style :: real

record quality_summary =
  summary_menuItems :: nat
  menuNeedsReview :: nat
  menuAvgConfidence :: real
  framesExtracted :: nat
  frameTypes :: "string list"
  hasRestaurantName :: bool
  summary_isDefaultStyle :: bool

record quality_report =
  rating :: rating
  overall :: real
  scores :: scores
  issues :: "issue list"
  summary :: quality_summary

text \<open>
  \<^verbatim>\<open>x.toFixed(f)\<close> rounds the magnitude of \<open>x\<close> and puts the sign back: for \<open>x \<ge> 0\<close> it
  picks the integer \<open>n\<close> with \<open>n / 10 ^ f - x\<close> closest to zero, the larger one at a tie.
  \<open>toFixed2\<close> is \<^verbatim>\<open>parseFloat(x.toFixed(2))\<close> and \<open>toFixed0\<close> is the integer that
  \<^verbatim>\<open>x.toFixed(0)\<close> prints. The tie is taken on the exact real.
\<close>

definition toFixed2 :: "real \<Rightarrow> real" where
  "toFixed2 x =
     (if x < 0 then - (real_of_int (round (- x * 100)) / 100)
      else real_of_int (round (x * 100)) / 100)"

definition toFixed0 :: "real \<Rightarrow> int" where
  "toFixed0 x = (if x < 0 then - round (- x) else round x)"

text \<open>
  \<^verbatim>\<open>assessQuality\<close> is one function of four blocks (menu, restaurant info, frames,
  style), each computing a score and pushing its issues. The blocks are separate
  definitions here; \<open>all_issues\<close> appends their issues in the order of the pushes and
  \<open>assessQuality\<close> assembles the report.
\<close>

subsection \<open>Menu quality\<close>

definition menuCount :: "extraction_result \<Rightarrow> nat" where
  "menuCount r = length (items (menuItems r))"

definition needsReviewCount :: "extraction_result \<Rightarrow> nat" where
  "needsReviewCount r = length (filter needsReview (items (menuItems r)))"

text \<open>\<^verbatim>\<open>i.confidence || 0\<close>\<close>

definition confidence_or_0 :: "menu_item \<Rightarrow> real" where
  "confidence_or_0 i = (case confidence i of None \<Rightarrow> 0 | Some c \<Rightarrow> c)"

definition avgConfidence :: "extraction_result \<Rightarrow> real" where
  "avgConfidence r =
     (if menuCount r > 0
      then foldl (\<lambda>sum i. sum + confidence_or_0 i) 0 (items (menuItems r)) / real (menuCount r)
      else 0)"

definition itemsWithPrice :: "extraction_result \<Rightarrow> nat" where
  "itemsWithPrice r = length (filter (\<lambda>i. price i \<noteq> None) (items (menuItems r)))"

definition menu_score :: "extraction_result \<Rightarrow> real" where
  "menu_score r =
     min 1 (real (menuCount r) / 5) * 0.4 +
     (1 - real (needsReviewCount r) / real (max (menuCount r) 1)) * 0.3 +
     avgConfidence r * 0.3"

definition menu_issues :: "extraction_result \<Rightarrow> issue list" where
  "menu_issues r =
     (if menuCount r = 0
      then [\<lparr>issue_type = critical, issue_category = menu, message = No_menu_items_found\<rparr>]
      else if menuCount r < 3
      then [\<lparr>issue_type = warning, issue_category = menu,
             message = Only_menu_items_found (menuCount r)\<rparr>]
      else []) @
     (if menuCount r > 0 \<and> needsReviewCount r = menuCount r
      then [\<lparr>issue_type = warning, issue_category = menu, message = All_menu_items_need_review\<rparr>]
      else []) @
     (if menuCount r > 0 \<and> avgConfidence r < 0.6
      then [\<lparr>issue_type = warning, issue_category = menu,
             message = Low_average_confidence (toFixed0 (avgConfidence r * 100))\<rparr>]
      else []) @
     (if menuCount r > 0 \<and> itemsWithPrice r = 0
      then [\<lparr>issue_type = warning, issue_category = menu,
             message = No_prices_detected_on_any_items\<rparr>]
      else [])"

subsection \<open>Restaurant info quality\<close>

text \<open>\<^verbatim>\<open>!!s\<close> for a property that is a string or absent: present and not empty.\<close>

definition truthy :: "string option \<Rightarrow> bool" where
  "truthy s = (case s of None \<Rightarrow> False | Some v \<Rightarrow> v \<noteq> [])"

definition hasName :: "extraction_result \<Rightarrow> bool" where
  "hasName r = truthy (name (restaurantInfo r))"

definition nameConfidence :: "extraction_result \<Rightarrow> real" where
  "nameConfidence r = (case name_confidence (restaurantInfo r) of None \<Rightarrow> 0 | Some c \<Rightarrow> c)"

definition hasCuisine :: "extraction_result \<Rightarrow> bool" where
  "hasCuisine r =
     (truthy (cuisineType (restaurantInfo r)) \<and>
      cuisineType (restaurantInfo r) \<noteq> Some ''Restaurant'')"

definition hasDescription :: "extraction_result \<Rightarrow> bool" where
  "hasDescription r =
     (case info_description (restaurantInfo r) of
        None \<Rightarrow> False
      | Some d \<Rightarrow> d \<noteq> [] \<and> length d > 20)"

definition restaurantInfo_score :: "extraction_result \<Rightarrow> real" where
  "restaurantInfo_score r =
     (if hasName r then 0.4 else 0) +
     (if hasCuisine r then 0.3 else 0) +
     (if hasDescription r then 0.3 else 0)"

definition info_issues :: "extraction_result \<Rightarrow> issue list" where
  "info_issues r =
     (if \<not> hasName r
      then [\<lparr>issue_type = warning, issue_category = info, message = Restaurant_name_not_detected\<rparr>]
      else if nameConfidence r < 0.7
      then [\<lparr>issue_type = warning, issue_category = info,
             message = Low_confidence_on_restaurant_name (toFixed0 (nameConfidence r * 100))\<rparr>]
      else []) @
     (if \<not> hasCuisine r
      then [\<lparr>issue_type = warning, issue_category = info, message = Cuisine_type_not_identified\<rparr>]
      else [])"

subsection \<open>Frames quality\<close>

definition hasFrameType :: "string \<Rightarrow> extraction_result \<Rightarrow> bool" where
  "hasFrameType t r = (t \<in> set (map frame_type (frames r)))"

definition highPriorityFrames :: "extraction_result \<Rightarrow> nat" where
  "highPriorityFrames r = length (filter (\<lambda>f. priority f = ''high'') (frames r))"

definition frames_score :: "extraction_result \<Rightarrow> real" where
  "frames_score r =
     (if length (frames r) \<ge> 8 then 0.3 else real (length (frames r)) / 8 * 0.3) +
     (if hasFrameType ''food'' r then 0.2 else 0) +
     (if hasFrameType ''exterior'' r then 0.15 else 0) +
     (if hasFrameType ''interior'' r then 0.15 else 0) +
     (if highPriorityFrames r \<ge> 3 then 0.2 else real (highPriorityFrames r) / 3 * 0.2)"

definition frames_issues :: "extraction_result \<Rightarrow> issue list" where
  "frames_issues r =
     (if length (frames r) = 0
      then [\<lparr>issue_type = critical, issue_category = frames_category,
             message = No_frames_extracted\<rparr>]
      else if length (frames r) < 5
      then [\<lparr>issue_type = warning, issue_category = frames_category,
             message = Only_frames_extracted (length (frames r))\<rparr>]
      else []) @
     (if \<not> hasFrameType ''food'' r
      then [\<lparr>issue_type = warning, issue_category = frames_category,
             message = No_food_photos_detected\<rparr>]
      else []) @
     (if \<not> hasFrameType ''exterior'' r \<and> \<not> hasFrameType ''interior'' r
      then [\<lparr>issue_type = warning, issue_category = frames_category,
             message = No_exterior_or_interior_shots\<rparr>]
      else [])"

subsection \<open>Style quality\<close>

definition isDefaultStyle :: "extraction_result \<Rightarrow> bool" where
  "isDefaultStyle r =
     (primaryColor (style r) = Some ''#2563eb'' \<and> theme (style r) = Some ''modern'')"

definition style_score :: "extraction_result \<Rightarrow> real" where
  "style_score r = (if isDefaultStyle r then 0.3 else 1)"

definition style_issues :: "extraction_result \<Rightarrow> issue list" where
  "style_issues r =
     (if isDefaultStyle r
      then [\<lparr>issue_type = warning, issue_category = style_category,
             message = Using_default_styling\<rparr>]
      else [])"

subsection \<open>Overall score, rating and report\<close>

definition all_issues :: "extraction_result \<Rightarrow> issue list" where
  "all_issues r = menu_issues r @ info_issues r @ frames_issues r @ style_issues r"

definition overall_score :: "extraction_result \<Rightarrow> real" where
  "overall_score r =
     menu_score r * 0.35 + restaurantInfo_score r * 0.25 + frames_score r * 0.25 +
     style_score r * 0.15"

definition rate :: "issue list \<Rightarrow> real \<Rightarrow> rating" where
  "rate is ov =
     (if list_ex (\<lambda>i. issue_type i = critical) is then poor
      else if ov \<ge> 0.8 \<and> length is = 0 then good
      else if ov \<ge> 0.6 then fair
      else poor)"

text \<open>The set of frame types in insertion order, as \<^verbatim>\<open>[...new Set(xs)]\<close> lists it.\<close>

definition in_insertion_order :: "string list \<Rightarrow> string list" where
  "in_insertion_order xs = rev (remdups (rev xs))"

definition assessQuality :: "extraction_result \<Rightarrow> quality_report" where
  "assessQuality r =
     \<lparr>rating = rate (all_issues r) (overall_score r),
      overall = toFixed2 (overall_score r),
      scores = \<lparr>score_menu = toFixed2 (menu_score r),
                score_restaurantInfo = toFixed2 (restaurantInfo_score r),
                score_frames = toFixed2 (frames_score r),
                score_style = toFixed2 (style_score r)\<rparr>,
      issues = all_issues r,
      summary = \<lparr>summary_menuItems = menuCount r,
                 menuNeedsReview = needsReviewCount r,
                 menuAvgConfidence = toFixed2 (avgConfidence r),
                 framesExtracted = length (frames r),
                 frameTypes = in_insertion_order (map frame_type (frames r)),
                 hasRestaurantName = hasName r,
                 summary_isDefaultStyle = isDefaultStyle r\<rparr>\<rparr>"

text \<open>The default style that \<^verbatim>\<open>extractStyle\<close> substitutes when its response does not parse.\<close>

definition style_fallback :: style_profile where
  "style_fallback =
     \<lparr>theme = Some ''modern'', primaryColor = Some ''#2563eb'',
      secondaryColor = Some ''#f59e0b'', mood = Some ''warm'',
      fontStyle = Some ''sans-serif'', designNotes = Some ''Default styling applied''\<rparr>"

definition style_tuple ::
  "style_profile \<Rightarrow> string option \<times> string option \<times> string option \<times> string option \<times> string option" where
  "style_tuple s = (theme s, primaryColor s, secondaryColor s, mood s, fontStyle s)"


section \<open>The run ledger (\<^verbatim>\<open>ExtractionLogger\<close>)\<close>

datatype run_status = running | completed | failed

datatype step_name =
    upload_video | get_metadata | select_key_frames | menu_extraction_pass1
  | menu_extraction_pass2 | extract_restaurant_info | extract_style | extract_frames

text \<open>
  The errors the pipelines throw, named after the awaited call that rejected (the source
  carries a message string).
\<close>

datatype error =
    Upload_failed
  | Poll_failed
  | Video_processing_failed
  | Metadata_failed
  | Generate_failed step_name
  | Mkdir_failed
  | Extract_frames_failed
  | Vision_failed
  | Vision_parse_failed
  | Save_failed

datatype step_warning = JSON_parse_failed

text \<open>
  A step of a run. Identifiers, timestamps, prompts and output payloads are left out:
  no function modelled here reads them.
\<close>

record step =
  step_name :: step_name
  step_status :: run_status
  warnings :: "step_warning list"
  step_error :: "error option"

text \<open>
  The logger object is the run. \<open>usedFallback\<close> and \<open>nativeError\<close> are the metadata
  entries that \<^verbatim>\<open>extractWithFallback\<close> sets (absent is \<open>False\<close> and \<open>None\<close>).
\<close>

record run =
  runId :: nat
  status :: run_status
  steps :: "step list"
  usedFallback :: bool
  nativeError :: "error option"
  result :: "extraction_result option"
  quality :: "quality_report option"
  run_error :: "error option"

definition new_logger :: "nat \<Rightarrow> run" where
  "new_logger uuid =
     \<lparr>runId = uuid, status = running, steps = [], usedFallback = False, nativeError = None,
      result = None, quality = None, run_error = None\<rparr>"

text \<open>
  \<^verbatim>\<open>startStep\<close> pushes a running step and returns a tracker that mutates it; the tracker
  is the step's position in \<open>steps\<close>.
\<close>

definition startStep :: "step_name \<Rightarrow> run \<Rightarrow> nat \<times> run" where
  "startStep nm lg =
     (length (steps lg),
      lg\<lparr>steps := steps lg @
        [\<lparr>step_name = nm, step_status = running, warnings = [], step_error = None\<rparr>]\<rparr>)"

definition update_step :: "nat \<Rightarrow> (step \<Rightarrow> step) \<Rightarrow> run \<Rightarrow> run" where
  "update_step i f lg = lg\<lparr>steps := (steps lg)[i := f (steps lg ! i)]\<rparr>"

definition addWarning :: "nat \<Rightarrow> step_warning \<Rightarrow> run \<Rightarrow> run" where
  "addWarning i w = update_step i (\<lambda>s. s\<lparr>warnings := warnings s @ [w]\<rparr>)"

definition step_complete :: "nat \<Rightarrow> run \<Rightarrow> run" where
  "step_complete i = update_step i (\<lambda>s. s\<lparr>step_status := completed\<rparr>)"

definition step_fail :: "nat \<Rightarrow> error \<Rightarrow> run \<Rightarrow> run" where
  "step_fail i e = update_step i (\<lambda>s. s\<lparr>step_status := failed, step_error := Some e\<rparr>)"

text \<open>\<^verbatim>\<open>complete(result)\<close> and \<^verbatim>\<open>fail(error)\<close> of the logger.\<close>

definition complete_run :: "extraction_result \<Rightarrow> run \<Rightarrow> run" where
  "complete_run res lg = lg\<lparr>status := completed, result := Some res, quality := Some (assessQuality res)\<rparr>"

definition fail :: "error \<Rightarrow> run \<Rightarrow> run" where
  "fail e lg = lg\<lparr>status := failed, run_error := Some e\<rparr>"

subsection \<open>Persistence: one file per run and the index of recent runs\<close>

record run_summary =
  summary_runId :: nat
  summary_status :: run_status
  stepCount :: nat
  failedSteps :: nat
  summary_quality :: "(rating \<times> real \<times> nat) option"
  summary_error :: "error option"

definition summary_of :: "run \<Rightarrow> run_summary" where
  "summary_of lg =
     \<lparr>summary_runId = runId lg,
      summary_status = status lg,
      stepCount = length (steps lg),
      failedSteps = length (filter (\<lambda>s. step_status s = failed) (steps lg)),
      summary_quality =
        (case quality lg of
           None \<Rightarrow> None
         | Some q \<Rightarrow> Some (rating q, overall q, length (issues q))),
      summary_error = run_error lg\<rparr>"

text \<open>
  The storage: the run files by identifier and the index file, \<open>None\<close> while it does not
  exist.
\<close>

record ledger =
  run_files :: "nat \<rightharpoonup> run"
  index_file :: "run_summary list option"

definition empty_ledger :: ledger where
  "empty_ledger = \<lparr>run_files = Map.empty, index_file = None\<rparr>"

definition updateIndex :: "run \<Rightarrow> run_summary list option \<Rightarrow> run_summary list" where
  "updateIndex lg file =
     (let index = (case file of None \<Rightarrow> [] | Some ix \<Rightarrow> ix);
          index = filter (\<lambda>r. summary_runId r \<noteq> runId lg) index;
          index = summary_of lg # index
      in take 100 index)"

text \<open>
  \<^verbatim>\<open>save\<close> awaits the creation of the log directory, the write of the run file and,
  in \<^verbatim>\<open>updateIndex\<close>, the write of the index (a failing read of the index is caught
  there: the index starts empty). Each of them can reject, and \<^verbatim>\<open>save\<close> then rejects.
  What the file system does with one call of \<^verbatim>\<open>save\<close>: all writes succeed; the
  directory or the run file cannot be written; the run file is written and the index
  is not. A write that fails leaves its file as it was.
\<close>

datatype save_result = Saved | Run_write_fails | Index_write_fails

definition save :: "save_result \<Rightarrow> run \<Rightarrow> ledger \<Rightarrow> (error + unit) \<times> ledger" where
  "save fs lg L =
     (case fs of
        Run_write_fails \<Rightarrow> (Inl Save_failed, L)
      | Index_write_fails \<Rightarrow>
          (Inl Save_failed, L\<lparr>run_files := (run_files L)(runId lg \<mapsto> lg)\<rparr>)
      | Saved \<Rightarrow>
          (Inr (),
           \<lparr>run_files = (run_files L)(runId lg \<mapsto> lg),
            index_file = Some (updateIndex lg (index_file L))\<rparr>))"

definition listRuns :: "ledger \<Rightarrow> run_summary list" where
  "listRuns L = (case index_file L of None \<Rightarrow> [] | Some ix \<Rightarrow> ix)"

text \<open>The ledger after a history of saves that succeed, oldest first.\<close>

definition saves :: "run list \<Rightarrow> ledger \<Rightarrow> ledger" where
  "saves lgs L = foldl (\<lambda>L lg. snd (save Saved lg L)) L lgs"

text \<open>
  Modelled from the spec: \<^verbatim>\<open>uuidv4\<close> of the package \<^verbatim>\<open>uuid\<close>, which is not part of the
  repository. The spec has the run identifier ``unique, generated at start'': the
  generator never gives the same identifier twice. Its state is the next identifier.
  The identifiers that \<^verbatim>\<open>startStep\<close> draws for the steps are left out with the step
  identifiers.
\<close>

record world =
  store :: ledger
  next_uuid :: nat

definition uuidv4 :: "world \<Rightarrow> nat \<times> world" where
  "uuidv4 w = (next_uuid w, w\<lparr>next_uuid := Suc (next_uuid w)\<rparr>)"


section \<open>The extraction pipelines (\<^verbatim>\<open>VideoExtractor\<close>)\<close>

subsection \<open>The collaborators\<close>

text \<open>
  An awaited call of a collaborator either rejects or resolves. A call of the analysis
  service followed by the parse of its text has three outcomes: the call (or reading
  the response text) throws; the text is read but \<^verbatim>\<open>JSON.parse\<close>, or a property
  access on the parsed value inside the same inner \<^verbatim>\<open>try\<close>, throws; or the stage
  obtains the payload it reads, which is taken to have the shape the prompt asks for (a
  list of frame objects, a list of item objects, an info object, a style object), with
  \<^verbatim>\<open>|| []\<close> and \<^verbatim>\<open>|| ''\<close> already applied.
\<close>

datatype 'a outcome = Rejects | Resolves 'a

datatype 'a response = Call_fails | Parse_fails | Parsed 'a

datatype file_state = PROCESSING | ACTIVE | FAILED

record video_metadata =
  duration :: real
  video_size :: nat

text \<open>What \<^verbatim>\<open>GeminiVision.extractRestaurantData\<close> parses for the frame-based pipeline.\<close>

record vision_item =
  vision_name :: string
  vision_category :: "string option"
  estimatedPrice :: "real option"

record photo =
  frameIndex :: "nat option"
  photo_type :: string
  photo_description :: string

record extracted_data =
  restaurantName :: "string option"
  vision_cuisineType :: "string option"
  vision_description :: "string option"
  styleTheme :: "string option"
  vision_primaryColor :: "string option"
  vision_menuItems :: "vision_item list option"
  photos :: "photo list option"

text \<open>
  Everything outside the extractor that one call of \<^verbatim>\<open>extractWithFallback\<close> meets:
  the upload and the successive answers of the readiness poll, the probe, the five
  analyses of the primary pipeline, the frame materialisation, what the file system
  does with each of the four calls of \<^verbatim>\<open>save\<close> (in the \<^verbatim>\<open>try\<close> and in the \<^verbatim>\<open>catch\<close> of
  \<^verbatim>\<open>extract\<close>, in the inner \<^verbatim>\<open>try\<close> and \<^verbatim>\<open>catch\<close> of \<^verbatim>\<open>extractWithFallback\<close>), and the
  two calls of the frame-based pipeline.
\<close>

record env =
  uploadFile :: "file_state outcome"
  getFile :: "file_state outcome list"
  getMetadata :: "video_metadata outcome"
  frames_response :: "selected_frame list response"
  pass1_response :: "(menu_item list \<times> string) response"
  pass2_response :: "menu_item list response"
  info_response :: "restaurant_info response"
  style_response :: "style_profile response"
  mkdir :: "unit outcome"
  extractFrameAt :: "selected_frame \<Rightarrow> string outcome"
  save_in_try :: save_result
  save_in_catch :: save_result
  fallback_save_in_try :: save_result
  fallback_save_in_catch :: save_result
  extractFrames :: "string list outcome"
  vision_response :: "extracted_data response"

subsection \<open>Upload and readiness poll\<close>

text \<open>
  The \<^verbatim>\<open>while (file.state === 'PROCESSING')\<close> loop over the answers of \<^verbatim>\<open>getFile\<close>.
  The source has no bound on the loop; \<open>None\<close> is the run that is still waiting when
  the answers are used up.
\<close>

fun pollFile :: "file_state \<Rightarrow> file_state outcome list \<Rightarrow> nat \<Rightarrow> (error + file_state \<times> nat) option" where
  "pollFile st [] pollCount = (if st = PROCESSING then None else Some (Inr (st, pollCount)))"
| "pollFile st (a # as) pollCount =
     (if st = PROCESSING
      then (case a of
              Rejects \<Rightarrow> Some (Inl Poll_failed)
            | Resolves st' \<Rightarrow> pollFile st' as (pollCount + 1))
      else Some (Inr (st, pollCount)))"

definition uploadVideo :: "env \<Rightarrow> run \<Rightarrow> ((error + file_state) \<times> run) option" where
  "uploadVideo e lg =
     (let (i, lg) = startStep upload_video lg in
      case uploadFile e of
        Rejects \<Rightarrow> Some (Inl Upload_failed, step_fail i Upload_failed lg)
      | Resolves st \<Rightarrow>
          (case pollFile st (getFile e) 0 of
             None \<Rightarrow> None
           | Some (Inl err) \<Rightarrow> Some (Inl err, step_fail i err lg)
           | Some (Inr (file, pollCount)) \<Rightarrow>
               if file = FAILED
               then Some (Inl Video_processing_failed, step_fail i Video_processing_failed lg)
               else Some (Inr file, step_complete i lg)))"

subsection \<open>Frame selection\<close>

definition fallbackFrames :: "real \<Rightarrow> selected_frame list" where
  "fallbackFrames d =
     (let frameCount = 10;
          interval = d / (real frameCount + 1)
      in map (\<lambda>i. \<lparr>timestamp = Some (interval * (real i + 1)), frame_type = ''unknown'',
                   frame_description = ''Auto-selected frame'', priority = ''medium'',
                   path = None\<rparr>) [0..<frameCount])"

text \<open>
  Each stage is an async function: it starts its step, awaits the analysis, and
  continues. \<open>_settle\<close> is the continuation after the await, given the step's tracker.
\<close>

definition selectKeyFrames_settle ::
  "env \<Rightarrow> real \<Rightarrow> nat \<Rightarrow> run \<Rightarrow> (error + selected_frame list) \<times> run" where
  "selectKeyFrames_settle e d i lg =
     (case frames_response e of
        Call_fails \<Rightarrow>
          (Inl (Generate_failed select_key_frames),
           step_fail i (Generate_failed select_key_frames) lg)
      | Parse_fails \<Rightarrow> (Inr (fallbackFrames d), step_complete i (addWarning i JSON_parse_failed lg))
      | Parsed fs \<Rightarrow> (Inr fs, step_complete i lg))"

definition selectKeyFrames :: "env \<Rightarrow> real \<Rightarrow> run \<Rightarrow> (error + selected_frame list) \<times> run" where
  "selectKeyFrames e d lg =
     (let (i, lg) = startStep select_key_frames lg in selectKeyFrames_settle e d i lg)"

subsection \<open>Two-pass menu extraction\<close>

definition with_default_confidence :: "menu_item \<Rightarrow> menu_item" where
  "with_default_confidence item = item\<lparr>confidence := Some 0.7, needsReview := True\<rparr>"

definition extractMenuTwoPass_settle :: "env \<Rightarrow> nat \<Rightarrow> run \<Rightarrow> (error + menu_extraction) \<times> run" where
  "extractMenuTwoPass_settle e i1 lg =
     (case pass1_response e of
        Call_fails \<Rightarrow>
          (Inl (Generate_failed menu_extraction_pass1),
           step_fail i1 (Generate_failed menu_extraction_pass1) lg)
      | Parse_fails \<Rightarrow>
          (Inr \<lparr>items = [], verified = False, menuStyleNotes = None\<rparr>,
           step_complete i1 (addWarning i1 JSON_parse_failed lg))
      | Parsed (its, notes) \<Rightarrow>
          (let lg = step_complete i1 lg in
           if length its = 0
           then (Inr \<lparr>items = [], verified = True, menuStyleNotes = Some notes\<rparr>, lg)
           else
             (let (i2, lg) = startStep menu_extraction_pass2 lg in
              case pass2_response e of
                Call_fails \<Rightarrow>
                  (Inr \<lparr>items = map with_default_confidence its, verified = False,
                        menuStyleNotes = Some notes\<rparr>,
                   step_fail i2 (Generate_failed menu_extraction_pass2) lg)
              | Parse_fails \<Rightarrow>
                  (Inr \<lparr>items = map with_default_confidence its, verified = False,
                        menuStyleNotes = Some notes\<rparr>,
                   step_complete i2 (addWarning i2 JSON_parse_failed lg))
              | Parsed verifiedItems \<Rightarrow>
                  (Inr \<lparr>items = verifiedItems, verified = True, menuStyleNotes = Some notes\<rparr>,
                   step_complete i2 lg))))"

definition extractMenuTwoPass :: "env \<Rightarrow> run \<Rightarrow> (error + menu_extraction) \<times> run" where
  "extractMenuTwoPass e lg =
     (let (i1, lg) = startStep menu_extraction_pass1 lg in extractMenuTwoPass_settle e i1 lg)"

subsection \<open>Restaurant info and style\<close>

definition info_fallback :: restaurant_info where
  "info_fallback =
     \<lparr>name = None, cuisineType = Some ''Restaurant'',
      info_description = Some ''A local restaurant.'', ambiance = Some ''casual'',
      name_confidence = Some 0\<rparr>"

definition extractRestaurantInfo_settle ::
  "env \<Rightarrow> nat \<Rightarrow> run \<Rightarrow> (error + restaurant_info) \<times> run" where
  "extractRestaurantInfo_settle e i lg =
     (case info_response e of
        Call_fails \<Rightarrow>
          (Inl (Generate_failed extract_restaurant_info),
           step_fail i (Generate_failed extract_restaurant_info) lg)
      | Parse_fails \<Rightarrow> (Inr info_fallback, step_complete i (addWarning i JSON_parse_failed lg))
      | Parsed parsed \<Rightarrow> (Inr parsed, step_complete i lg))"


definition extractStyle :: "env \<Rightarrow> run \<Rightarrow> (error + style_profile) \<times> run" where
  "extractStyle e lg =
     (let (i, lg) = startStep extract_style lg in
      case style_response e of
        Call_fails \<Rightarrow>
          (Inl (Generate_failed extract_style), step_fail i (Generate_failed extract_style) lg)
      | Parse_fails \<Rightarrow> (Inr style_fallback, step_complete i (addWarning i JSON_parse_failed lg))
      | Parsed parsed \<Rightarrow> (Inr parsed, step_complete i lg))"

subsection \<open>Frame materialisation\<close>

text \<open>
  One \<^verbatim>\<open>extractFrameAt\<close> per selected frame; a frame whose extraction throws (also one
  without a numeric timestamp, whose \<^verbatim>\<open>toFixed\<close> throws) goes to the failure list and
  is left out.
\<close>

fun materialize :: "env \<Rightarrow> selected_frame list \<Rightarrow> selected_frame list" where
  "materialize e [] = []"
| "materialize e (frame # rest) =
     (case (if timestamp frame = None then Rejects else extractFrameAt e frame) of
        Rejects \<Rightarrow> materialize e rest
      | Resolves outputPath \<Rightarrow> frame\<lparr>path := Some outputPath\<rparr> # materialize e rest)"

definition extractFramesFromTimestamps ::
  "env \<Rightarrow> selected_frame list \<Rightarrow> run \<Rightarrow> (error + selected_frame list) \<times> run" where
  "extractFramesFromTimestamps e fs lg =
     (let (i, lg) = startStep extract_frames lg in
      case mkdir e of
        Rejects \<Rightarrow> (Inl Mkdir_failed, step_fail i Mkdir_failed lg)
      | Resolves _ \<Rightarrow> (Inr (materialize e fs), step_complete i lg))"

subsection \<open>The primary pipeline\<close>

text \<open>
  \<^verbatim>\<open>Promise.all\<close> of the three concurrent stages: it rejects when one of them rejects.
  The three stages start their steps one after the other before any of them settles.
  The model then takes one schedule: every stage settles before the join continues, and
  the error reported is the first in the order of the array. In the source the join
  rejects at the first rejection in time. Under another schedule the error can be that
  of another failing stage, the failed run can be saved with steps of the other stages
  still \<open>running\<close>, and a menu stage abandoned by the join can later start its step of
  pass 2 on the logger of the fallback run. Whether the join rejects does not depend
  on the schedule; no statement below depends on the steps of a run whose join
  rejected or on the steps of a fallback run.
\<close>

definition promise_all3 ::
  "error + 'a \<Rightarrow> error + 'b \<Rightarrow> error + 'c \<Rightarrow> error + 'a \<times> 'b \<times> 'c" where
  "promise_all3 a b c =
     (case a of
        Inl err \<Rightarrow> Inl err
      | Inr x \<Rightarrow>
          (case b of
             Inl err \<Rightarrow> Inl err
           | Inr y \<Rightarrow>
               (case c of
                  Inl err \<Rightarrow> Inl err
                | Inr z \<Rightarrow> Inr (x, y, z))))"

text \<open>The body of the \<^verbatim>\<open>try\<close> of \<^verbatim>\<open>extract\<close> after the upload, up to the assembled result.\<close>

definition extract_try :: "env \<Rightarrow> run \<Rightarrow> (error + extraction_result) \<times> run" where
  "extract_try e lg =
     (let (metadataStep, lg) = startStep get_metadata lg in
      case getMetadata e of
        Rejects \<Rightarrow> (Inl Metadata_failed, step_fail metadataStep Metadata_failed lg)
      | Resolves metadata \<Rightarrow>
          (let lg = step_complete metadataStep lg;
               (i_frames, lg) = startStep select_key_frames lg;
               (i_menu, lg) = startStep menu_extraction_pass1 lg;
               (i_info, lg) = startStep extract_restaurant_info lg;
               (r_frames, lg) = selectKeyFrames_settle e (duration metadata) i_frames lg;
               (r_menu, lg) = extractMenuTwoPass_settle e i_menu lg;
               (r_info, lg) = extractRestaurantInfo_settle e i_info lg
           in case promise_all3 r_frames r_menu r_info of
                Inl err \<Rightarrow> (Inl err, lg)
              | Inr (fs, menuResult, restaurant) \<Rightarrow>
                  (case extractStyle e lg of
                     (Inl err, lg) \<Rightarrow> (Inl err, lg)
                   | (Inr sty, lg) \<Rightarrow>
                       (case extractFramesFromTimestamps e fs lg of
                          (Inl err, lg) \<Rightarrow> (Inl err, lg)
                        | (Inr extractedFrames, lg) \<Rightarrow>
                            (Inr \<lparr>frames = extractedFrames, menuItems = menuResult,
                                  restaurantInfo = restaurant, style = sty\<rparr>, lg)))))"

text \<open>
  A \<^verbatim>\<open>catch\<close> block of the orchestrator: \<^verbatim>\<open>this.logger.fail(err)\<close>, then the awaited
  \<^verbatim>\<open>save\<close>, then \<^verbatim>\<open>throw err\<close>. When that \<^verbatim>\<open>save\<close> rejects, its error is the one
  thrown.
\<close>

definition catch_and_save ::
  "save_result \<Rightarrow> error \<Rightarrow> run \<Rightarrow> world \<Rightarrow> (error + 'a) \<times> run \<times> world" where
  "catch_and_save fs err lg w =
     (let lg = fail err lg in
      case save fs lg (store w) of
        (Inr _, L) \<Rightarrow> (Inl err, lg, w\<lparr>store := L\<rparr>)
      | (Inl saveErr, L) \<Rightarrow> (Inl saveErr, lg, w\<lparr>store := L\<rparr>))"

text \<open>
  \<^verbatim>\<open>extract\<close> (\<open>extract\<close> is a command of Isabelle, hence the suffix): the result or the
  error thrown, the logger it leaves in \<^verbatim>\<open>this.logger\<close>, and the world after it. \<open>None\<close>
  is the run that waits for the upload for ever. The \<^verbatim>\<open>save\<close> of the completed run is
  awaited inside the \<^verbatim>\<open>try\<close>: when it rejects, the \<^verbatim>\<open>catch\<close> fails the run and saves
  again. The \<^verbatim>\<open>finally\<close> block deletes the uploaded file on the remote side and
  swallows every error of that; it changes nothing that is modelled here.
\<close>

definition extract_video ::
  "env \<Rightarrow> world \<Rightarrow> ((error + extraction_result) \<times> run \<times> world) option" where
  "extract_video e w =
     (let (uuid, w) = uuidv4 w;
          lg = new_logger uuid
      in case uploadVideo e lg of
           None \<Rightarrow> None
         | Some (Inl err, lg) \<Rightarrow> Some (catch_and_save (save_in_catch e) err lg w)
         | Some (Inr file, lg) \<Rightarrow>
             (case extract_try e lg of
                (Inl err, lg) \<Rightarrow> Some (catch_and_save (save_in_catch e) err lg w)
              | (Inr res, lg) \<Rightarrow>
                  (let lg = complete_run res lg in
                   case save (save_in_try e) lg (store w) of
                     (Inr _, L) \<Rightarrow> Some (Inr res, lg, w\<lparr>store := L\<rparr>)
                   | (Inl saveErr, L) \<Rightarrow>
                       Some (catch_and_save (save_in_catch e) saveErr lg (w\<lparr>store := L\<rparr>)))))"

subsection \<open>The frame-based pipeline and the orchestrator\<close>

text \<open>\<^verbatim>\<open>xs[i]\<close>, undefined out of range.\<close>

definition at_index :: "'a list \<Rightarrow> nat \<Rightarrow> 'a option" where
  "at_index xs i = (if i < length xs then Some (xs ! i) else None)"

text \<open>\<^verbatim>\<open>a || b\<close> on strings that may be absent, \<open>b\<close> absent too or a literal.\<close>

definition or_else :: "string option \<Rightarrow> string option \<Rightarrow> string option" where
  "or_else a b = (if truthy a then a else b)"

definition or_default :: "string option \<Rightarrow> string \<Rightarrow> string" where
  "or_default a d = (case a of None \<Rightarrow> d | Some v \<Rightarrow> if v = [] then d else v)"

definition convert_photo :: "string list \<Rightarrow> nat \<times> photo \<Rightarrow> selected_frame" where
  "convert_photo framePaths ip =
     (case ip of (i, ph) \<Rightarrow>
        \<lparr>timestamp = None, frame_type = photo_type ph,
         frame_description = photo_description ph, priority = ''medium'',
         path = or_else (case frameIndex ph of None \<Rightarrow> None | Some k \<Rightarrow> at_index framePaths k)
                        (at_index framePaths i)\<rparr>)"

definition convert_item :: "vision_item \<Rightarrow> menu_item" where
  "convert_item item =
     \<lparr>item_name = vision_name item,
      category = or_default (vision_category item) ''Main Dishes'',
      price = estimatedPrice item, confidence = Some 0.7, needsReview = True\<rparr>"

definition convert :: "string list \<Rightarrow> extracted_data \<Rightarrow> extraction_result" where
  "convert framePaths extractedData =
     \<lparr>frames = (case photos extractedData of
                  None \<Rightarrow> []
                | Some ps \<Rightarrow> map (convert_photo framePaths) (enumerate 0 ps)),
      menuItems =
        \<lparr>items = (case vision_menuItems extractedData of
                    None \<Rightarrow> []
                  | Some its \<Rightarrow> map convert_item its),
         verified = False, menuStyleNotes = None\<rparr>,
      restaurantInfo =
        \<lparr>name = restaurantName extractedData,
         cuisineType = vision_cuisineType extractedData,
         info_description = vision_description extractedData,
         ambiance = Some ''casual'', name_confidence = None\<rparr>,
      style =
        \<lparr>theme = Some (or_default (styleTheme extractedData) ''modern''),
         primaryColor = Some (or_default (vision_primaryColor extractedData) ''#2563eb''),
         secondaryColor = Some ''#f59e0b'', mood = Some ''warm'',
         fontStyle = Some ''sans-serif'', designNotes = None\<rparr>\<rparr>"

text \<open>
  \<^verbatim>\<open>extractFrameBased\<close> logs no step. \<^verbatim>\<open>extractRestaurantData\<close> rethrows a parse
  failure, so here a response that does not parse is an error.
\<close>

definition extractFrameBased :: "env \<Rightarrow> error + extraction_result" where
  "extractFrameBased e =
     (case extractFrames e of
        Rejects \<Rightarrow> Inl Extract_frames_failed
      | Resolves framePaths \<Rightarrow>
          (case vision_response e of
             Call_fails \<Rightarrow> Inl Vision_failed
           | Parse_fails \<Rightarrow> Inl Vision_parse_failed
           | Parsed extractedData \<Rightarrow> Inr (convert framePaths extractedData)))"

text \<open>
  \<^verbatim>\<open>extractWithFallback\<close> returns the result together with the identifier of the run
  that produced it. The \<^verbatim>\<open>save\<close> of the completed fallback run is awaited inside the
  inner \<^verbatim>\<open>try\<close>, as in \<^verbatim>\<open>extract\<close>.
\<close>

definition extractWithFallback ::
  "env \<Rightarrow> world \<Rightarrow> ((error + extraction_result \<times> nat) \<times> run \<times> world) option" where
  "extractWithFallback e w =
     (case extract_video e w of
        None \<Rightarrow> None
      | Some (Inr res, lg, w) \<Rightarrow> Some (Inr (res, runId lg), lg, w)
      | Some (Inl err, primary, w) \<Rightarrow>
          (let (uuid, w) = uuidv4 w;
               lg = (new_logger uuid)\<lparr>usedFallback := True, nativeError := Some err\<rparr>
           in case extractFrameBased e of
                Inr res \<Rightarrow>
                  (let lg = complete_run res lg in
                   case save (fallback_save_in_try e) lg (store w) of
                     (Inr _, L) \<Rightarrow> Some (Inr (res, runId lg), lg, w\<lparr>store := L\<rparr>)
                   | (Inl saveErr, L) \<Rightarrow>
                       Some (catch_and_save (fallback_save_in_catch e) saveErr lg
                               (w\<lparr>store := L\<rparr>)))
              | Inl fallbackErr \<Rightarrow>
                  Some (catch_and_save (fallback_save_in_catch e) fallbackErr lg w)))"

section \<open>Conditions and example data of the statements\<close>

subsection \<open>Conditions on the collaborators\<close>

text \<open>
  The readiness poll comes to an end: the upload does not leave the file in
  \<open>PROCESSING\<close>, or some answer of \<^verbatim>\<open>getFile\<close> is not ``still \<open>PROCESSING\<close>''.
\<close>

definition poll_settles :: "env \<Rightarrow> bool" where
  "poll_settles e =
     (uploadFile e \<noteq> Resolves PROCESSING \<or>
      list_ex (\<lambda>a. a \<noteq> Resolves PROCESSING) (getFile e))"

text \<open>
  The first answer of \<^verbatim>\<open>getFile\<close> that is not ``still \<open>PROCESSING\<close>'', and the number of
  answers up to and including it.
\<close>

definition first_answer :: "file_state outcome list \<Rightarrow> file_state outcome option" where
  "first_answer as = find (\<lambda>a. a \<noteq> Resolves PROCESSING) as"

definition polls_until_answer :: "file_state outcome list \<Rightarrow> nat" where
  "polls_until_answer as = Suc (length (takeWhile (\<lambda>a. a = Resolves PROCESSING) as))"

text \<open>
  The upload stage throws: \<^verbatim>\<open>uploadFile\<close> rejects, or it leaves the file \<open>FAILED\<close>, or it
  leaves the file \<open>PROCESSING\<close> and the first answer of the poll that is not
  \<open>PROCESSING\<close> is a rejection or the state \<open>FAILED\<close>. This is stated on the answers
  themselves, not through \<open>pollFile\<close>.
\<close>

definition upload_aborts :: "env \<Rightarrow> bool" where
  "upload_aborts e =
     (uploadFile e = Rejects \<or> uploadFile e = Resolves FAILED \<or>
      uploadFile e = Resolves PROCESSING \<and>
        (first_answer (getFile e) = Some Rejects \<or>
         first_answer (getFile e) = Some (Resolves FAILED)))"

text \<open>
  One of the awaited calls that the primary pipeline does not guard fails, the save of
  the completed run among them. Neither the analysis of pass 2 nor any \<open>Parse_fails\<close>
  occurs in it.
\<close>

definition primary_aborts :: "env \<Rightarrow> bool" where
  "primary_aborts e =
     (upload_aborts e \<or> getMetadata e = Rejects \<or> frames_response e = Call_fails \<or>
      pass1_response e = Call_fails \<or> info_response e = Call_fails \<or>
      style_response e = Call_fails \<or> mkdir e = Rejects \<or> save_in_try e \<noteq> Saved)"

text \<open>The step a stage leaves when it absorbs a response that does not parse.\<close>

definition absorbed_step :: "step_name \<Rightarrow> step" where
  "absorbed_step nm =
     \<lparr>step_name = nm, step_status = completed, warnings = [JSON_parse_failed],
      step_error = None\<rparr>"

definition completed_step :: "step_name \<Rightarrow> step" where
  "completed_step nm =
     \<lparr>step_name = nm, step_status = completed, warnings = [], step_error = None\<rparr>"

definition failed_step :: "step_name \<Rightarrow> error \<Rightarrow> step" where
  "failed_step nm err =
     \<lparr>step_name = nm, step_status = failed, warnings = [], step_error = Some err\<rparr>"

definition log_step :: "step \<Rightarrow> run \<Rightarrow> run" where
  "log_step s lg = lg\<lparr>steps := steps lg @ [s]\<rparr>"


text \<open>The parts of what a pipeline returns.\<close>

definition thrown_or_result :: "('a \<times> run \<times> world) option \<Rightarrow> 'a option" where
  "thrown_or_result = map_option fst"

definition logger_of :: "('a \<times> run \<times> world) option \<Rightarrow> run option" where
  "logger_of = map_option (fst \<circ> snd)"

definition ledger_of :: "('a \<times> run \<times> world) option \<Rightarrow> ledger option" where
  "ledger_of = map_option (store \<circ> snd \<circ> snd)"

text \<open>The run file stored under an identifier, if any.\<close>

definition stored_run :: "nat \<Rightarrow> ('a \<times> run \<times> world) option \<Rightarrow> run option" where
  "stored_run i r = (case ledger_of r of None \<Rightarrow> None | Some L \<Rightarrow> run_files L i)"

definition index_ids :: "ledger \<Rightarrow> nat list" where
  "index_ids L = map summary_runId (listRuns L)"

subsection \<open>Example data\<close>

definition mk_item :: "string \<Rightarrow> real option \<Rightarrow> real option \<Rightarrow> bool \<Rightarrow> menu_item" where
  "mk_item n p c nr =
     \<lparr>item_name = n, category = ''Mains'', price = p, confidence = c, needsReview = nr\<rparr>"

definition mk_frame :: "real \<Rightarrow> string \<Rightarrow> string \<Rightarrow> selected_frame" where
  "mk_frame t ty pr =
     \<lparr>timestamp = Some t, frame_type = ty, frame_description = ''shot'', priority = pr,
      path = None\<rparr>"

definition no_info :: restaurant_info where
  "no_info =
     \<lparr>name = None, cuisineType = None, info_description = None, ambiance = None,
      name_confidence = None\<rparr>"

definition luigis :: restaurant_info where
  "luigis =
     \<lparr>name = Some ''Luigis'', cuisineType = Some ''Italian'', info_description = None,
      ambiance = Some ''casual'', name_confidence = Some 0.9\<rparr>"

text \<open>A style the analysis can return: the default theme and primary colour, other accents.\<close>

definition blue_modern_style :: style_profile where
  "blue_modern_style =
     \<lparr>theme = Some ''modern'', primaryColor = Some ''#2563eb'',
      secondaryColor = Some ''#10b981'', mood = Some ''cool'',
      fontStyle = Some ''serif'', designNotes = Some ''Blue storefront, green accents''\<rparr>"

definition rustic_style :: style_profile where
  "rustic_style =
     \<lparr>theme = Some ''rustic'', primaryColor = Some ''#8B4513'',
      secondaryColor = Some ''#f59e0b'', mood = Some ''warm'',
      fontStyle = Some ''serif'', designNotes = None\<rparr>"

definition blue_modern_result :: extraction_result where
  "blue_modern_result =
     \<lparr>frames = [], menuItems = \<lparr>items = [], verified = True, menuStyleNotes = None\<rparr>,
      restaurantInfo = no_info, style = blue_modern_style\<rparr>"

text \<open>Three verified items with confidences 0.9, 0.4, 0.8, one of them flagged.\<close>

definition three_items :: "menu_item list" where
  "three_items =
     [mk_item ''Margherita'' (Some 12) (Some 0.9) False,
      mk_item ''Tiramisu'' None (Some 0.4) True,
      mk_item ''Espresso'' (Some 3) (Some 0.8) False]"

definition four_items :: "menu_item list" where
  "four_items =
     [mk_item ''Margherita'' (Some 12) None False,
      mk_item ''Tiramisu'' None None False,
      mk_item ''Espresso'' (Some 3) None False,
      mk_item ''Focaccia'' (Some 5) None False]"

definition two_pass_example :: extraction_result where
  "two_pass_example =
     \<lparr>frames = [],
      menuItems = \<lparr>items = three_items, verified = True, menuStyleNotes = Some ''chalkboard''\<rparr>,
      restaurantInfo = no_info, style = style_fallback\<rparr>"

definition eight_frames :: "selected_frame list" where
  "eight_frames =
     [mk_frame 2 ''exterior'' ''high'', mk_frame 5 ''interior'' ''high'',
      mk_frame 9 ''food'' ''high'', mk_frame 12 ''menu'' ''medium'',
      mk_frame 15 ''signage'' ''medium'', mk_frame 19 ''ambiance'' ''low'',
      mk_frame 23 ''staff'' ''low'', mk_frame 27 ''kitchen'' ''medium'']"

text \<open>
  A result without issues whose overall score is 0.79725: three items of average
  confidence 0.65 with one flagged, a confident name and a cuisine but no description,
  eight frames of every kind, a brand style.
\<close>

definition rounding_example :: extraction_result where
  "rounding_example =
     \<lparr>frames = eight_frames,
      menuItems =
        \<lparr>items = [mk_item ''Margherita'' (Some 12) (Some 0.9) False,
                  mk_item ''Tiramisu'' None (Some 0.25) True,
                  mk_item ''Espresso'' (Some 3) (Some 0.8) False],
         verified = True, menuStyleNotes = None\<rparr>,
      restaurantInfo = luigis, style = rustic_style\<rparr>"

definition vision_example :: extracted_data where
  "vision_example =
     \<lparr>restaurantName = Some ''Luigis'', vision_cuisineType = Some ''Italian'',
      vision_description = Some ''A small trattoria.'', styleTheme = None,
      vision_primaryColor = None,
      vision_menuItems =
        Some [\<lparr>vision_name = ''Margherita'', vision_category = None, estimatedPrice = Some 12\<rparr>,
              \<lparr>vision_name = ''Tiramisu'', vision_category = Some ''desserts'',
               estimatedPrice = None\<rparr>],
      photos = Some [\<lparr>frameIndex = Some 1, photo_type = ''food'', photo_description = ''pizza''\<rparr>]\<rparr>"

text \<open>
  A result with a critical issue and a high score: no frame, five confident items with
  prices, full restaurant info, a brand style. Its overall score is 0.75.
\<close>

definition no_frames_example :: extraction_result where
  "no_frames_example =
     \<lparr>frames = [],
      menuItems =
        \<lparr>items = [mk_item ''Margherita'' (Some 12) (Some 1) False,
                  mk_item ''Tiramisu'' (Some 6) (Some 1) False,
                  mk_item ''Espresso'' (Some 3) (Some 1) False,
                  mk_item ''Focaccia'' (Some 5) (Some 1) False,
                  mk_item ''Lasagne'' (Some 14) (Some 1) False],
         verified = True, menuStyleNotes = None\<rparr>,
      restaurantInfo = luigis\<lparr>info_description := Some ''A family trattoria with a wood oven.''\<rparr>,
      style = rustic_style\<rparr>"

text \<open>A world with an empty ledger.\<close>

definition world0 :: world where
  "world0 = \<lparr>store = empty_ledger, next_uuid = 1\<rparr>"

text \<open>An environment in which every call succeeds and every response parses.\<close>

definition env_ok :: env where
  "env_ok =
     \<lparr>uploadFile = Resolves PROCESSING,
      getFile = [Resolves PROCESSING, Resolves ACTIVE],
      getMetadata = Resolves \<lparr>duration = 30, video_size = 1000\<rparr>,
      frames_response = Parsed eight_frames,
      pass1_response = Parsed (four_items, ''chalkboard''),
      pass2_response = Parsed three_items,
      info_response = Parsed luigis,
      style_response = Parsed rustic_style,
      mkdir = Resolves (),
      extractFrameAt = (\<lambda>frame. Resolves ''frame.jpg''),
      save_in_try = Saved, save_in_catch = Saved,
      fallback_save_in_try = Saved, fallback_save_in_catch = Saved,
      extractFrames = Resolves [''frame_0001.jpg'', ''frame_0002.jpg''],
      vision_response = Parsed vision_example\<rparr>"

text \<open>The same, but the local probe of the video fails.\<close>

definition env_probe_fails :: env where
  "env_probe_fails = env_ok\<lparr>getMetadata := Rejects\<rparr>"

text \<open>
  The probe fails, the frame-based pipeline succeeds, and the ledger cannot be written
  when the failed run and then the completed fallback run are saved.
\<close>

definition env_ledger_fails :: env where
  "env_ledger_fails =
     env_probe_fails\<lparr>save_in_catch := Run_write_fails, fallback_save_in_try := Run_write_fails\<rparr>"


text \<open>The same, but the response of menu pass 2 does not parse.\<close>

definition env_pass2_unparsed :: env where
  "env_pass2_unparsed = env_ok\<lparr>pass2_response := Parse_fails\<rparr>"

text \<open>The same, but the response of frame selection does not parse.\<close>

definition env_frames_unparsed :: env where
  "env_frames_unparsed = env_ok\<lparr>frames_response := Parse_fails\<rparr>"


section \<open>Properties of the quality scorer\<close>

lemma foldl_plus_sum_list:
  fixes a :: real
  shows "foldl (\<lambda>sum i. sum + f i) a xs = a + sum_list (map f xs)"
  by (induction xs arbitrary: a) simp_all

lemma round_hundredths_close: "\<bar>real_of_int (round (y * 100)) / 100 - y\<bar> \<le> 1 / 200"
proof -
  have "\<bar>real_of_int (round (y * 100)) - y * 100\<bar> \<le> 1 / 2"
    by (rule of_int_round_abs_le)
  then show ?thesis
    by (simp add: field_simps abs_le_iff)
qed

lemma toFixed2_close: "\<bar>toFixed2 x - x\<bar> \<le> 1 / 200"
proof (cases "x < 0")
  case True
  have "\<bar>toFixed2 x - x\<bar> = \<bar>real_of_int (round (- x * 100)) / 100 - (- x)\<bar>"
    using True by (simp add: toFixed2_def abs_if)
  also have "\<dots> \<le> 1 / 200"
    by (rule round_hundredths_close)
  finally show ?thesis .
next
  case False
  then show ?thesis
    using round_hundredths_close [of x] by (simp add: toFixed2_def)
qed

lemma toFixed2_hundredths: "\<exists>n::int. toFixed2 x = real_of_int n / 100"
proof (cases "x < 0")
  case True
  then have "toFixed2 x = real_of_int (- round (- x * 100)) / 100"
    by (simp add: toFixed2_def)
  then show ?thesis by blast
next
  case False
  then have "toFixed2 x = real_of_int (round (x * 100)) / 100"
    by (simp add: toFixed2_def)
  then show ?thesis by blast
qed

lemma critical_issue_iff:
  "list_ex (\<lambda>i. issue_type i = critical) (all_issues r) \<longleftrightarrow> menuCount r = 0 \<or> frames r = []"
  by (simp add: all_issues_def menu_issues_def info_issues_def frames_issues_def
      style_issues_def)

lemma rounding_example_no_issue: "all_issues rounding_example = []"
  by (simp add: all_issues_def menu_issues_def info_issues_def
      frames_issues_def style_issues_def menuCount_def needsReviewCount_def
      avgConfidence_def itemsWithPrice_def hasName_def hasCuisine_def truthy_def
      nameConfidence_def hasFrameType_def isDefaultStyle_def confidence_or_0_def
      rounding_example_def eight_frames_def mk_frame_def mk_item_def luigis_def
      rustic_style_def)

lemma rounding_example_overall: "overall_score rounding_example = 0.79725"
  by (simp add: overall_score_def menu_score_def restaurantInfo_score_def
      frames_score_def style_score_def menuCount_def needsReviewCount_def
      avgConfidence_def hasName_def hasCuisine_def hasDescription_def truthy_def
      hasFrameType_def highPriorityFrames_def isDefaultStyle_def confidence_or_0_def
      rounding_example_def eight_frames_def mk_frame_def mk_item_def luigis_def
      rustic_style_def)

lemma rounding_example_reported: "toFixed2 (overall_score rounding_example) = 0.8"
  unfolding rounding_example_overall toFixed2_def by (simp add: round_def)

lemma no_frames_example_overall: "overall_score no_frames_example = 0.75"
  by (simp add: overall_score_def menu_score_def restaurantInfo_score_def
      frames_score_def style_score_def menuCount_def needsReviewCount_def
      avgConfidence_def hasName_def hasCuisine_def hasDescription_def truthy_def
      hasFrameType_def highPriorityFrames_def isDefaultStyle_def confidence_or_0_def
      no_frames_example_def mk_item_def luigis_def rustic_style_def)

lemma two_pass_example_overall: "overall_score two_pass_example = 0.2725"
  by (simp add: overall_score_def menu_score_def restaurantInfo_score_def
      frames_score_def style_score_def menuCount_def needsReviewCount_def
      avgConfidence_def hasName_def hasCuisine_def hasDescription_def truthy_def
      hasFrameType_def highPriorityFrames_def isDefaultStyle_def confidence_or_0_def
      two_pass_example_def three_items_def mk_item_def no_info_def style_fallback_def)

text \<open>
  C1, as amended. The scorer compares two of the five components of the style tuple:
  the style score is 0.3 exactly when the primary colour is \<open>#2563eb\<close> and the theme is
  \<open>modern\<close>, and 1 otherwise, whatever the secondary colour, the mood and the font style
  are; the default tuple that \<^verbatim>\<open>extractStyle\<close> substitutes scores 0.3, and the issue
  ``using default styling'' is reported in exactly the same case.
\<close>

theorem style_score_two_fields:
  "score_style (scores (assessQuality r)) =
     (if primaryColor (style r) = Some ''#2563eb'' \<and> theme (style r) = Some ''modern''
      then 0.3 else 1) \<and>
   (score_style (scores (assessQuality r)) = 0.3 \<longleftrightarrow>
      primaryColor (style r) = Some ''#2563eb'' \<and> theme (style r) = Some ''modern'') \<and>
   score_style (scores (assessQuality (r\<lparr>style := style_fallback\<rparr>))) = 0.3 \<and>
   (summary_isDefaultStyle (summary (assessQuality r)) \<longleftrightarrow>
      score_style (scores (assessQuality r)) = 0.3)"
  by (simp add: assessQuality_def style_score_def isDefaultStyle_def toFixed2_def
      style_fallback_def)

text \<open>
  C1 as stated fails: a style with the default theme and primary colour but another
  secondary colour, mood and font style is not the default tuple, and scores 0.3.
\<close>

theorem style_score_default_tuple_counterexample:
  "score_style (scores (assessQuality blue_modern_result)) = 0.3 \<and>
   style_tuple (style blue_modern_result) \<noteq> style_tuple style_fallback"
  by (simp add: assessQuality_def style_score_def isDefaultStyle_def blue_modern_result_def
      blue_modern_style_def style_tuple_def style_fallback_def toFixed2_def)

theorem style_score_two_fields_witness:
  "score_style (scores (assessQuality blue_modern_result)) = 0.3 \<and>
   score_style (scores (assessQuality two_pass_example)) = 0.3 \<and>
   score_style (scores (assessQuality rounding_example)) = 1"
  using style_score_two_fields [of blue_modern_result]
    style_score_two_fields [of two_pass_example]
    style_score_two_fields [of rounding_example]
  by (simp add: blue_modern_result_def blue_modern_style_def two_pass_example_def
      style_fallback_def rounding_example_def rustic_style_def)

text \<open>
  C2, as amended. The rating of every report is \<open>poor\<close> when the issue list has a
  critical issue, whatever the overall score. Otherwise it follows the overall score
  that the scorer computes, before it is rounded for the report: \<open>good\<close> exactly when
  that score is at least 0.8 and there is no issue, \<open>fair\<close> exactly when the rating is
  not \<open>good\<close> and that score is at least 0.6, and \<open>poor\<close> exactly when that score is
  below 0.6.
\<close>

theorem rating_rule:
  "((\<exists>i \<in> set (issues (assessQuality r)). issue_type i = critical) \<longrightarrow>
      rating (assessQuality r) = poor) \<and>
   (\<not> (\<exists>i \<in> set (issues (assessQuality r)). issue_type i = critical) \<longrightarrow>
      (rating (assessQuality r) = good \<longleftrightarrow>
         overall_score r \<ge> 0.8 \<and> issues (assessQuality r) = []) \<and>
      (rating (assessQuality r) = fair \<longleftrightarrow>
         \<not> (overall_score r \<ge> 0.8 \<and> issues (assessQuality r) = []) \<and> overall_score r \<ge> 0.6) \<and>
      (rating (assessQuality r) = poor \<longleftrightarrow> overall_score r < 0.6))"
  by (auto simp add: assessQuality_def rate_def list_ex_iff)

text \<open>
  C2 as stated, read on the fields of the report, fails: there is a report whose
  overall score is 0.8 and whose issue list is empty, and its rating is \<open>fair\<close>, not
  \<open>good\<close>.
\<close>

theorem rating_on_reported_overall_counterexample:
  "overall (assessQuality rounding_example) = 0.8 \<and>
   issues (assessQuality rounding_example) = [] \<and>
   rating (assessQuality rounding_example) = fair"
proof -
  have "rate [] (overall_score rounding_example) = fair"
    unfolding rounding_example_overall rate_def by simp
  then show ?thesis
    using rounding_example_no_issue rounding_example_reported
    by (simp add: assessQuality_def)
qed

text \<open>
  The rule at a result with a critical issue and an overall score of 0.75, which alone
  would rate \<open>fair\<close>, and at a result without issue.
\<close>

theorem rating_rule_witness:
  "overall_score no_frames_example = 0.75 \<and>
   rating (assessQuality no_frames_example) = poor \<and>
   rating (assessQuality rounding_example) = fair"
proof -
  have crit: "\<exists>i \<in> set (issues (assessQuality no_frames_example)). issue_type i = critical"
    using critical_issue_iff [of no_frames_example]
    by (simp add: assessQuality_def list_ex_iff no_frames_example_def)
  have none: "issues (assessQuality rounding_example) = []"
    using rounding_example_no_issue by (simp add: assessQuality_def)
  from crit rating_rule [of no_frames_example]
  have "rating (assessQuality no_frames_example) = poor" by blast
  moreover from none rounding_example_overall rating_rule [of rounding_example]
  have "rating (assessQuality rounding_example) = fair" by simp
  ultimately show ?thesis using no_frames_example_overall by simp
qed

text \<open>
  C8. The menu score of every result is
  \<open>0.4 * min 1 (n / 5) + 0.3 * (1 - k / max n 1) + 0.3 * avg\<close> for \<open>n\<close> items of which \<open>k\<close>
  are flagged for review, \<open>avg\<close> being the mean of the item confidences (an absent
  confidence counts as 0) and 0 when there is no item. For three items with
  confidences 0.9, 0.4, 0.8, one of them flagged, the average confidence is 0.70 to two
  decimals, and the menu score is within one unit of the third decimal of 0.649 and
  agrees with it at the two decimals of the report.
\<close>

theorem menu_score_formula:
  "menu_score r =
     0.4 * min 1 (real (length (items (menuItems r))) / 5) +
     0.3 * (1 - real (length (filter needsReview (items (menuItems r)))) /
                real (max (length (items (menuItems r))) 1)) +
     0.3 * avgConfidence r \<and>
   avgConfidence r =
     (if items (menuItems r) = [] then 0
      else sum_list (map confidence_or_0 (items (menuItems r))) /
           real (length (items (menuItems r)))) \<and>
   map confidence (items (menuItems two_pass_example)) = [Some 0.9, Some 0.4, Some 0.8] \<and>
   length (filter needsReview (items (menuItems two_pass_example))) = 1 \<and>
   \<bar>avgConfidence two_pass_example - 0.70\<bar> \<le> 0.005 \<and>
   \<bar>menu_score two_pass_example - 0.649\<bar> \<le> 0.001 \<and>
   toFixed2 (menu_score two_pass_example) = toFixed2 0.649"
proof -
  have formula: "menu_score r =
     0.4 * min 1 (real (length (items (menuItems r))) / 5) +
     0.3 * (1 - real (length (filter needsReview (items (menuItems r)))) /
                real (max (length (items (menuItems r))) 1)) +
     0.3 * avgConfidence r"
    by (simp add: menu_score_def menuCount_def needsReviewCount_def mult.commute)
  have mean: "avgConfidence r =
     (if items (menuItems r) = [] then 0
      else sum_list (map confidence_or_0 (items (menuItems r))) /
           real (length (items (menuItems r))))"
    by (simp add: avgConfidence_def menuCount_def foldl_plus_sum_list)
  have items3: "map confidence (items (menuItems two_pass_example)) = [Some 0.9, Some 0.4, Some 0.8] \<and>
     length (filter needsReview (items (menuItems two_pass_example))) = 1"
    by (simp add: two_pass_example_def three_items_def mk_item_def)
  have avg: "avgConfidence two_pass_example = 0.7"
    by (simp add: avgConfidence_def menuCount_def two_pass_example_def three_items_def
        mk_item_def confidence_or_0_def)
  have score: "menu_score two_pass_example = 0.65"
    by (simp add: menu_score_def avgConfidence_def menuCount_def needsReviewCount_def
        two_pass_example_def three_items_def mk_item_def confidence_or_0_def)
  have near: "\<bar>avgConfidence two_pass_example - 0.70\<bar> \<le> 0.005"
    "\<bar>menu_score two_pass_example - 0.649\<bar> \<le> 0.001"
    unfolding avg score by simp_all
  have reported: "toFixed2 (menu_score two_pass_example) = toFixed2 0.649"
    unfolding score toFixed2_def by (simp add: round_def)
  from formula mean items3 near reported show ?thesis by blast
qed

theorem menu_score_formula_witness:
  "menu_score rounding_example = 0.635 \<and> avgConfidence rounding_example = 0.65"
  using menu_score_formula [of rounding_example]
  by (simp add: rounding_example_def mk_item_def confidence_or_0_def)

text \<open>
  C10. The report gives the overall score and the four dimension scores rounded to two
  decimals: each is \<open>toFixed2\<close> of the computed score, a multiple of 1/100 within 1/200
  of it. The rating is computed from the unrounded overall score: it is \<open>poor\<close> with a
  critical issue, else \<open>good\<close> when the unrounded score is at least 0.8 and there is no
  issue, else \<open>fair\<close> when the unrounded score is at least 0.6, else \<open>poor\<close>. There is a
  result without issue whose reported overall score is 0.8, on which the same rule
  gives \<open>good\<close>, and whose rating is \<open>fair\<close>, its unrounded overall score being at least
  0.6 and below 0.8.
\<close>

theorem report_rounds_rating_does_not:
  "overall (assessQuality r) = toFixed2 (overall_score r) \<and>
   score_menu (scores (assessQuality r)) = toFixed2 (menu_score r) \<and>
   score_restaurantInfo (scores (assessQuality r)) = toFixed2 (restaurantInfo_score r) \<and>
   score_frames (scores (assessQuality r)) = toFixed2 (frames_score r) \<and>
   score_style (scores (assessQuality r)) = toFixed2 (style_score r) \<and>
   (\<exists>n::int. overall (assessQuality r) = real_of_int n / 100) \<and>
   \<bar>overall (assessQuality r) - overall_score r\<bar> \<le> 1 / 200 \<and>
   (\<exists>n::int. score_menu (scores (assessQuality r)) = real_of_int n / 100) \<and>
   \<bar>score_menu (scores (assessQuality r)) - menu_score r\<bar> \<le> 1 / 200 \<and>
   (\<exists>n::int. score_restaurantInfo (scores (assessQuality r)) = real_of_int n / 100) \<and>
   \<bar>score_restaurantInfo (scores (assessQuality r)) - restaurantInfo_score r\<bar> \<le> 1 / 200 \<and>
   (\<exists>n::int. score_frames (scores (assessQuality r)) = real_of_int n / 100) \<and>
   \<bar>score_frames (scores (assessQuality r)) - frames_score r\<bar> \<le> 1 / 200 \<and>
   (\<exists>n::int. score_style (scores (assessQuality r)) = real_of_int n / 100) \<and>
   \<bar>score_style (scores (assessQuality r)) - style_score r\<bar> \<le> 1 / 200 \<and>
   rating (assessQuality r) =
     (if \<exists>i \<in> set (issues (assessQuality r)). issue_type i = critical then poor
      else if overall_score r \<ge> 0.8 \<and> issues (assessQuality r) = [] then good
      else if overall_score r \<ge> 0.6 then fair
      else poor) \<and>
   (\<exists>r'. issues (assessQuality r') = [] \<and> overall (assessQuality r') = 0.8 \<and>
         rate (issues (assessQuality r')) (overall (assessQuality r')) = good \<and>
         rating (assessQuality r') = fair \<and>
         0.6 \<le> overall_score r' \<and> overall_score r' < 0.8)"
proof -
  have rated: "rate [] (overall_score rounding_example) = fair"
    unfolding rounding_example_overall rate_def by simp
  have on_reported: "rate [] 0.8 = good"
    by (simp add: rate_def)
  have between: "0.6 \<le> overall_score rounding_example" "overall_score rounding_example < 0.8"
    unfolding rounding_example_overall by simp_all
  have e1: "issues (assessQuality rounding_example) = []"
    by (simp add: assessQuality_def rounding_example_no_issue)
  have e2: "overall (assessQuality rounding_example) = 0.8"
    using rounding_example_reported by (simp add: assessQuality_def)
  have e3: "rate (issues (assessQuality rounding_example))
      (overall (assessQuality rounding_example)) = good"
    by (simp only: e1 e2 on_reported)
  have e4: "rating (assessQuality rounding_example) = fair"
    by (simp add: assessQuality_def rounding_example_no_issue rated)
  from e1 e2 e3 e4 between
  have "issues (assessQuality rounding_example) = [] \<and>
        overall (assessQuality rounding_example) = 0.8 \<and>
        rate (issues (assessQuality rounding_example)) (overall (assessQuality rounding_example)) = good \<and>
        rating (assessQuality rounding_example) = fair \<and>
        0.6 \<le> overall_score rounding_example \<and> overall_score rounding_example < 0.8"
    by blast
  then have ex: "\<exists>r'. issues (assessQuality r') = [] \<and> overall (assessQuality r') = 0.8 \<and>
         rate (issues (assessQuality r')) (overall (assessQuality r')) = good \<and>
         rating (assessQuality r') = fair \<and>
         0.6 \<le> overall_score r' \<and> overall_score r' < 0.8"
    by blast
  have rounded: "overall (assessQuality r) = toFixed2 (overall_score r) \<and>
     score_menu (scores (assessQuality r)) = toFixed2 (menu_score r) \<and>
     score_restaurantInfo (scores (assessQuality r)) = toFixed2 (restaurantInfo_score r) \<and>
     score_frames (scores (assessQuality r)) = toFixed2 (frames_score r) \<and>
     score_style (scores (assessQuality r)) = toFixed2 (style_score r)"
    by (simp add: assessQuality_def)
  have rule: "rating (assessQuality r) =
     (if \<exists>i \<in> set (issues (assessQuality r)). issue_type i = critical then poor
      else if overall_score r \<ge> 0.8 \<and> issues (assessQuality r) = [] then good
      else if overall_score r \<ge> 0.6 then fair
      else poor)"
    by (simp add: assessQuality_def rate_def list_ex_iff)
  from rounded rule ex
    toFixed2_close [of "overall_score r"] toFixed2_hundredths [of "overall_score r"]
    toFixed2_close [of "menu_score r"] toFixed2_hundredths [of "menu_score r"]
    toFixed2_close [of "restaurantInfo_score r"] toFixed2_hundredths [of "restaurantInfo_score r"]
    toFixed2_close [of "frames_score r"] toFixed2_hundredths [of "frames_score r"]
    toFixed2_close [of "style_score r"] toFixed2_hundredths [of "style_score r"]
  show ?thesis
    by (simp only:)
qed

text \<open>
  The report of a result whose overall score is 0.2725: reported as 0.27, rated \<open>poor\<close>.
\<close>

theorem report_rounds_rating_does_not_witness:
  "overall (assessQuality two_pass_example) = 0.27 \<and>
   rating (assessQuality two_pass_example) = poor"
proof -
  have "toFixed2 (overall_score two_pass_example) = 0.27"
    unfolding two_pass_example_overall toFixed2_def by (simp add: round_def)
  moreover have "\<exists>i \<in> set (issues (assessQuality two_pass_example)). issue_type i = critical"
    using critical_issue_iff [of two_pass_example]
    by (simp add: assessQuality_def list_ex_iff two_pass_example_def)
  ultimately show ?thesis
    using report_rounds_rating_does_not [of two_pass_example] by simp
qed

section \<open>Properties of the index of recent runs\<close>

lemma saves_snoc: "saves (lgs @ [lg]) L = snd (save Saved lg (saves lgs L))"
  by (simp add: saves_def)

lemma listRuns_save:
  "listRuns (snd (save Saved lg L)) =
     take 100 (summary_of lg # filter (\<lambda>r. summary_runId r \<noteq> runId lg) (listRuns L))"
  by (simp add: listRuns_def save_def updateIndex_def split: option.splits)

lemma index_ids_save:
  "index_ids (snd (save Saved lg L)) =
     take 100 (runId lg # filter (\<lambda>i. i \<noteq> runId lg) (index_ids L))"
  by (simp add: index_ids_def listRuns_save take_map filter_map comp_def summary_of_def)

lemma save_rejects_iff: "isl (fst (save fs lg L)) \<longleftrightarrow> fs \<noteq> Saved"
  by (cases fs) (simp_all add: save_def)

lemma run_files_save:
  "run_files (snd (save fs lg L)) =
     (if fs = Run_write_fails then run_files L else (run_files L)(runId lg \<mapsto> lg))"
  by (cases fs) (simp_all add: save_def)

lemma index_file_failed_save:
  "fs \<noteq> Saved \<Longrightarrow> index_file (snd (save fs lg L)) = index_file L"
  by (cases fs) (simp_all add: save_def)

lemma remdups_snoc: "remdups (xs @ [x]) = filter (\<lambda>y. y \<noteq> x) (remdups xs) @ [x]"
  by (induction xs) auto

lemma rev_remdups_snoc:
  "rev (remdups (xs @ [x])) = x # filter (\<lambda>y. y \<noteq> x) (rev (remdups xs))"
  by (simp only: remdups_snoc rev_append rev_filter rev.simps append.simps)

text \<open>
  Cutting a duplicate-free list to \<open>n + 1\<close> entries before removing one identifier
  loses nothing of the first \<open>n\<close> entries that remain.
\<close>

lemma take_filter_take:
  "distinct xs \<Longrightarrow>
     take n (filter (\<lambda>y. y \<noteq> x) (take (Suc n) xs)) = take n (filter (\<lambda>y. y \<noteq> x) xs)"
proof (induction xs arbitrary: n)
  case Nil
  then show ?case by simp
next
  case (Cons y ys)
  show ?case
  proof (cases n)
    case 0
    then show ?thesis by simp
  next
    case (Suc m)
    show ?thesis
    proof (cases "y = x")
      case True
      with Cons.prems have absent: "x \<notin> set ys" by simp
      then have "filter (\<lambda>y. y \<noteq> x) ys = ys"
        by (auto simp add: filter_id_conv)
      moreover from absent have "x \<notin> set (take (Suc m) ys)"
        by (meson in_set_takeD)
      then have "filter (\<lambda>y. y \<noteq> x) (take (Suc m) ys) = take (Suc m) ys"
        by (auto simp add: filter_id_conv)
      ultimately show ?thesis using True Suc by simp
    next
      case False
      from Cons.prems have "distinct ys" by simp
      from Cons.IH [OF this, of m] False Suc show ?thesis by simp
    qed
  qed
qed

lemma index_ids_saves:
  "index_ids (saves lgs empty_ledger) = take 100 (rev (remdups (map runId lgs)))"
proof (induction lgs rule: rev_induct)
  case Nil
  then show ?case by (simp add: saves_def index_ids_def listRuns_def empty_ledger_def)
next
  case (snoc lg lgs)
  let ?all = "rev (remdups (map runId lgs))"
  have d: "distinct ?all" by simp
  have "index_ids (saves (lgs @ [lg]) empty_ledger)
      = take 100 (runId lg # filter (\<lambda>i. i \<noteq> runId lg) (take 100 ?all))"
    by (simp only: saves_snoc index_ids_save snoc.IH)
  also have "\<dots> = runId lg # take 99 (filter (\<lambda>i. i \<noteq> runId lg) (take (Suc 99) ?all))"
    by simp
  also have "\<dots> = runId lg # take 99 (filter (\<lambda>i. i \<noteq> runId lg) ?all)"
    by (simp only: take_filter_take [OF d])
  also have "\<dots> = take 100 (rev (remdups (map runId (lgs @ [lg]))))"
    by (simp add: rev_remdups_snoc)
  finally show ?case .
qed

text \<open>
  C9. Take any history of saves that succeed on a ledger that starts without an index,
  and one more such save of a run \<open>lg\<close>. Afterwards the index file exists and is what
  \<^verbatim>\<open>listRuns\<close> returns; it has at most 100 summaries; its first entry is the summary of
  \<open>lg\<close>; no run identifier occurs twice; and its identifiers are the runs saved so far in
  the order of their latest save, most recent first, cut to 100. On a ledger without an
  index \<^verbatim>\<open>listRuns\<close> returns the empty list. A save that rejects leaves the index as it
  was, so a history with such saves in between has the index of its saves that succeed.
\<close>

theorem recent_runs_index:
  "index_file (snd (save Saved lg (saves lgs empty_ledger))) =
     Some (listRuns (snd (save Saved lg (saves lgs empty_ledger)))) \<and>
   length (listRuns (snd (save Saved lg (saves lgs empty_ledger)))) \<le> 100 \<and>
   hd (listRuns (snd (save Saved lg (saves lgs empty_ledger)))) = summary_of lg \<and>
   listRuns (snd (save Saved lg (saves lgs empty_ledger))) \<noteq> [] \<and>
   distinct (map summary_runId (listRuns (snd (save Saved lg (saves lgs empty_ledger))))) \<and>
   map summary_runId (listRuns (snd (save Saved lg (saves lgs empty_ledger)))) =
     take 100 (rev (remdups (map runId (lgs @ [lg])))) \<and>
   listRuns empty_ledger = [] \<and>
   fst (save Saved lg L) = Inr () \<and>
   index_file (snd (save Run_write_fails lg L)) = index_file L \<and>
   index_file (snd (save Index_write_fails lg L)) = index_file L"
proof -
  let ?L = "snd (save Saved lg (saves lgs empty_ledger))"
  have stored: "index_file ?L = Some (listRuns ?L)"
    by (simp add: listRuns_def save_def)
  have len: "length (listRuns ?L) \<le> 100"
    by (simp add: listRuns_save)
  have front: "hd (listRuns ?L) = summary_of lg" and nonempty: "listRuns ?L \<noteq> []"
    by (simp_all add: listRuns_save)
  have ids: "map summary_runId (listRuns ?L) = take 100 (rev (remdups (map runId (lgs @ [lg]))))"
    using index_ids_saves [of "lgs @ [lg]"] by (simp only: saves_snoc index_ids_def)
  have "distinct (take 100 (rev (remdups (map runId (lgs @ [lg])))))"
    by (rule distinct_take) simp
  with ids have dist: "distinct (map summary_runId (listRuns ?L))" by simp
  have none: "listRuns empty_ledger = []"
    by (simp add: listRuns_def empty_ledger_def)
  have outcomes: "fst (save Saved lg L) = Inr ()"
    "index_file (snd (save Run_write_fails lg L)) = index_file L"
    "index_file (snd (save Index_write_fails lg L)) = index_file L"
    by (simp_all add: save_def)
  from stored len front nonempty dist ids none outcomes show ?thesis by blast
qed

theorem recent_runs_index_witness:
  "map summary_runId
     (listRuns (snd (save Saved (new_logger 1)
        (saves [new_logger 1, new_logger 2, new_logger 3, new_logger 2] empty_ledger)))) =
     [1, 2, 3]"
  using recent_runs_index [of "new_logger 1"
      "[new_logger 1, new_logger 2, new_logger 3, new_logger 2]"]
  by (simp add: new_logger_def)

section \<open>Properties of the stages\<close>

lemma update_started_step:
  "update_step (length (steps lg)) f (lg\<lparr>steps := steps lg @ [s]\<rparr>) = lg\<lparr>steps := steps lg @ [f s]\<rparr>"
  by (simp add: update_step_def)

lemma steps_update_step: "length (steps (update_step i f lg)) = length (steps lg)"
  by (simp add: update_step_def)

lemma poll_total:
  "list_ex (\<lambda>a. a \<noteq> Resolves PROCESSING) as \<Longrightarrow> pollFile st as n \<noteq> None"
proof (induction as arbitrary: st n)
  case Nil
  then show ?case by simp
next
  case (Cons a as)
  show ?case
  proof (cases a)
    case Rejects
    then show ?thesis by simp
  next
    case (Resolves st')
    show ?thesis
    proof (cases "st' = PROCESSING")
      case True
      with Cons.prems Resolves have "list_ex (\<lambda>a. a \<noteq> Resolves PROCESSING) as" by simp
      from Cons.IH [OF this] Resolves show ?thesis by simp
    next
      case False
      then have "pollFile st' as (n + 1) \<noteq> None" by (cases as) simp_all
      with Resolves show ?thesis by simp
    qed
  qed
qed

lemma pollFile_settled: "st \<noteq> PROCESSING \<Longrightarrow> pollFile st as n = Some (Inr (st, n))"
  by (cases as) simp_all

lemma selectKeyFrames_unparsed:
  "frames_response e = Parse_fails \<Longrightarrow>
     selectKeyFrames e d lg = (Inr (fallbackFrames d), log_step (absorbed_step select_key_frames) lg)"
  by (simp add: selectKeyFrames_def selectKeyFrames_settle_def startStep_def step_complete_def
      addWarning_def update_started_step log_step_def absorbed_step_def)

lemma extractMenuTwoPass_pass1_unparsed:
  "pass1_response e = Parse_fails \<Longrightarrow>
     extractMenuTwoPass e lg =
       (Inr \<lparr>items = [], verified = False, menuStyleNotes = None\<rparr>,
        log_step (absorbed_step menu_extraction_pass1) lg)"
  by (simp add: extractMenuTwoPass_def extractMenuTwoPass_settle_def startStep_def
      step_complete_def addWarning_def update_started_step log_step_def absorbed_step_def)

lemma extractMenuTwoPass_pass1_empty:
  "pass1_response e = Parsed ([], notes) \<Longrightarrow>
     extractMenuTwoPass e lg =
       (Inr \<lparr>items = [], verified = True, menuStyleNotes = Some notes\<rparr>,
        log_step (completed_step menu_extraction_pass1) lg)"
  by (simp add: extractMenuTwoPass_def extractMenuTwoPass_settle_def startStep_def
      step_complete_def update_started_step log_step_def completed_step_def)

lemma started_twice:
  "update_step (Suc (length (steps lg))) f (lg\<lparr>steps := steps lg @ [s, t]\<rparr>) =
     lg\<lparr>steps := steps lg @ [s, f t]\<rparr>"
  by (simp add: update_step_def nth_append list_update_append)

lemma extractMenuTwoPass_pass2_unparsed:
  assumes "pass1_response e = Parsed (its, notes)" and "its \<noteq> []"
    and "pass2_response e = Parse_fails"
  shows "extractMenuTwoPass e lg =
       (Inr \<lparr>items = map with_default_confidence its, verified = False,
             menuStyleNotes = Some notes\<rparr>,
        log_step (absorbed_step menu_extraction_pass2)
          (log_step (completed_step menu_extraction_pass1) lg))"
  using assms
  by (simp add: extractMenuTwoPass_def extractMenuTwoPass_settle_def startStep_def
      step_complete_def addWarning_def update_started_step started_twice log_step_def
      absorbed_step_def completed_step_def)

lemma extractMenuTwoPass_pass2_call_fails:
  assumes "pass1_response e = Parsed (its, notes)" and "its \<noteq> []"
    and "pass2_response e = Call_fails"
  shows "extractMenuTwoPass e lg =
       (Inr \<lparr>items = map with_default_confidence its, verified = False,
             menuStyleNotes = Some notes\<rparr>,
        log_step (failed_step menu_extraction_pass2 (Generate_failed menu_extraction_pass2))
          (log_step (completed_step menu_extraction_pass1) lg))"
  using assms
  by (simp add: extractMenuTwoPass_def extractMenuTwoPass_settle_def startStep_def
      step_complete_def step_fail_def update_started_step started_twice log_step_def
      failed_step_def completed_step_def)



lemma with_default_confidence_item:
  "confidence (with_default_confidence i) = Some 0.7 \<and> needsReview (with_default_confidence i)"
  by (simp add: with_default_confidence_def)

lemma convert_item_default:
  "confidence (convert_item i) = Some 0.7 \<and> needsReview (convert_item i)"
  by (simp add: convert_item_def)

text \<open>
  C5. On each of the three fallback-confidence paths every returned item has confidence
  0.7 and is flagged for review, and the extraction is marked unverified: when pass 1
  found items and the response of pass 2 does not parse; when pass 1 found items and the
  call of pass 2 throws (both return the items of pass 1, one for one); and in every
  result of the frame-based pipeline.
\<close>

theorem fallback_confidence_items:
  "(pass1_response e = Parsed (its, notes) \<and> its \<noteq> [] \<and>
      (pass2_response e = Parse_fails \<or> pass2_response e = Call_fails) \<longrightarrow>
      (\<exists>m. fst (extractMenuTwoPass e lg) = Inr m \<and> \<not> verified m \<and>
            length (items m) = length its \<and>
            (\<forall>i \<in> set (items m). confidence i = Some 0.7 \<and> needsReview i))) \<and>
   (extractFrameBased e = Inr res \<longrightarrow>
      \<not> verified (menuItems res) \<and>
      (\<forall>i \<in> set (items (menuItems res)). confidence i = Some 0.7 \<and> needsReview i))"
proof (intro conjI impI)
  assume a: "pass1_response e = Parsed (its, notes) \<and> its \<noteq> [] \<and>
      (pass2_response e = Parse_fails \<or> pass2_response e = Call_fails)"
  let ?m = "\<lparr>items = map with_default_confidence its, verified = False,
             menuStyleNotes = Some notes\<rparr>"
  from a have "fst (extractMenuTwoPass e lg) = Inr ?m"
    using extractMenuTwoPass_pass2_unparsed [of e its "notes" lg]
      extractMenuTwoPass_pass2_call_fails [of e its "notes" lg]
    by auto
  moreover have "\<forall>i \<in> set (items ?m). confidence i = Some 0.7 \<and> needsReview i"
    using with_default_confidence_item by auto
  ultimately show "\<exists>m. fst (extractMenuTwoPass e lg) = Inr m \<and> \<not> verified m \<and>
            length (items m) = length its \<and>
            (\<forall>i \<in> set (items m). confidence i = Some 0.7 \<and> needsReview i)"
    by (intro exI [of _ ?m]) simp
next
  assume "extractFrameBased e = Inr res"
  then obtain framePaths extractedData where res: "res = convert framePaths extractedData"
    by (auto simp add: extractFrameBased_def split: outcome.splits response.splits)
  show "\<not> verified (menuItems res)"
    by (simp add: res convert_def)
next
  assume "extractFrameBased e = Inr res"
  then obtain framePaths extractedData where res: "res = convert framePaths extractedData"
    by (auto simp add: extractFrameBased_def split: outcome.splits response.splits)
  show "\<forall>i \<in> set (items (menuItems res)). confidence i = Some 0.7 \<and> needsReview i"
    using convert_item_default by (auto simp add: res convert_def split: option.splits)
qed

theorem fallback_confidence_items_witness:
  "map confidence (items (menuItems (convert [''frame_0001.jpg'', ''frame_0002.jpg''] vision_example))) =
     [Some 0.7, Some 0.7] \<and>
   (\<exists>m. fst (extractMenuTwoPass env_pass2_unparsed (new_logger 1)) = Inr m \<and> \<not> verified m \<and>
        length (items m) = 4 \<and> list_all (\<lambda>i. confidence i = Some 0.7 \<and> needsReview i) (items m))"
proof -
  have p1: "pass1_response env_pass2_unparsed = Parsed (four_items, ''chalkboard'') \<and>
      four_items \<noteq> [] \<and>
      (pass2_response env_pass2_unparsed = Parse_fails \<or>
       pass2_response env_pass2_unparsed = Call_fails)"
    by (simp add: env_pass2_unparsed_def env_ok_def four_items_def)
  have fb: "extractFrameBased env_pass2_unparsed =
      Inr (convert [''frame_0001.jpg'', ''frame_0002.jpg''] vision_example)"
    by (simp add: extractFrameBased_def env_pass2_unparsed_def env_ok_def)
  have len: "length four_items = 4"
    by (simp add: four_items_def)
  note inst = fallback_confidence_items [of env_pass2_unparsed four_items "''chalkboard''"
      "new_logger 1" "convert [''frame_0001.jpg'', ''frame_0002.jpg''] vision_example"]
  from inst p1 len have
    "\<exists>m. fst (extractMenuTwoPass env_pass2_unparsed (new_logger 1)) = Inr m \<and> \<not> verified m \<and>
        length (items m) = 4 \<and> list_all (\<lambda>i. confidence i = Some 0.7 \<and> needsReview i) (items m)"
    by (simp add: list_all_iff)
  moreover from inst fb have
    "\<forall>i \<in> set (items (menuItems (convert [''frame_0001.jpg'', ''frame_0002.jpg''] vision_example))).
       confidence i = Some 0.7"
    by blast
  then have "map confidence (items (menuItems (convert [''frame_0001.jpg'', ''frame_0002.jpg''] vision_example))) =
     [Some 0.7, Some 0.7]"
    by (simp add: convert_def vision_example_def)
  ultimately show ?thesis by blast
qed

lemma fallbackFrames_nth:
  "i < 10 \<Longrightarrow>
     fallbackFrames d ! i =
       \<lparr>timestamp = Some (d / 11 * (real i + 1)), frame_type = ''unknown'',
        frame_description = ''Auto-selected frame'', priority = ''medium'', path = None\<rparr>"
  by (simp add: fallbackFrames_def Let_def)

lemma fallbackFrames_length: "length (fallbackFrames d) = 10"
  by (simp add: fallbackFrames_def Let_def)

text \<open>
  C6. For a duration \<open>d > 0\<close>, when the response of frame selection does not parse, the
  stage returns exactly 10 frames; frame \<open>i\<close> (from 0) has timestamp \<open>(i + 1) * d / 11\<close>,
  so consecutive timestamps differ by \<open>d / 11\<close>, they increase strictly, and all lie
  in \<open>[0, d]\<close>; every frame has type \<open>unknown\<close> and priority \<open>medium\<close>.
\<close>

theorem frame_selection_fallback:
  assumes "0 < d" and "frames_response e = Parse_fails"
  shows "\<exists>fs. fst (selectKeyFrames e d lg) = Inr fs \<and> length fs = 10 \<and>
     (\<forall>i<10. timestamp (fs ! i) = Some (real (i + 1) * d / 11) \<and>
             frame_type (fs ! i) = ''unknown'' \<and> priority (fs ! i) = ''medium'' \<and>
             0 \<le> the (timestamp (fs ! i)) \<and> the (timestamp (fs ! i)) \<le> d) \<and>
     (\<forall>i<9. the (timestamp (fs ! Suc i)) - the (timestamp (fs ! i)) = d / 11) \<and>
     (\<forall>i<10. \<forall>j<10. i < j \<longrightarrow> the (timestamp (fs ! i)) < the (timestamp (fs ! j)))"
proof -
  let ?fs = "fallbackFrames d"
  have ret: "fst (selectKeyFrames e d lg) = Inr ?fs"
    using assms(2) by (simp add: selectKeyFrames_unparsed)
  have each: "\<forall>i<10. timestamp (?fs ! i) = Some (real (i + 1) * d / 11) \<and>
             frame_type (?fs ! i) = ''unknown'' \<and> priority (?fs ! i) = ''medium'' \<and>
             0 \<le> the (timestamp (?fs ! i)) \<and> the (timestamp (?fs ! i)) \<le> d"
  proof (intro allI impI)
    fix i :: nat
    assume i: "i < 10"
    then have "real i + 1 \<le> 11" by simp
    with assms(1) have "d * (real i + 1) \<le> d * 11"
      by (intro mult_left_mono) simp_all
    with assms(1) i show "timestamp (?fs ! i) = Some (real (i + 1) * d / 11) \<and>
             frame_type (?fs ! i) = ''unknown'' \<and> priority (?fs ! i) = ''medium'' \<and>
             0 \<le> the (timestamp (?fs ! i)) \<and> the (timestamp (?fs ! i)) \<le> d"
      by (simp add: fallbackFrames_nth field_simps)
  qed
  have spaced: "\<forall>i<9. the (timestamp (?fs ! Suc i)) - the (timestamp (?fs ! i)) = d / 11"
    by (simp add: fallbackFrames_nth field_simps)
  have increasing: "\<forall>i<10. \<forall>j<10. i < j \<longrightarrow>
      the (timestamp (?fs ! i)) < the (timestamp (?fs ! j))"
    using assms(1) by (simp add: fallbackFrames_nth field_simps)
  from ret each spaced increasing fallbackFrames_length [of d] show ?thesis
    by blast
qed

theorem frame_selection_fallback_witness:
  "\<exists>fs. fst (selectKeyFrames env_frames_unparsed 30 (new_logger 1)) = Inr fs \<and>
        length fs = 10 \<and> timestamp (fs ! 0) = Some (30 / 11) \<and>
        timestamp (fs ! 9) = Some (300 / 11) \<and>
        the (timestamp (fs ! 1)) - the (timestamp (fs ! 0)) = 30 / 11 \<and>
        the (timestamp (fs ! 0)) < the (timestamp (fs ! 9))"
proof -
  have d: "(0::real) < 30" by simp
  have r: "frames_response env_frames_unparsed = Parse_fails"
    by (simp add: env_frames_unparsed_def)
  from frame_selection_fallback [OF d r, of "new_logger 1"] obtain fs where
    fs: "fst (selectKeyFrames env_frames_unparsed 30 (new_logger 1)) = Inr fs" "length fs = 10"
      "\<forall>i<10. timestamp (fs ! i) = Some (real (i + 1) * 30 / 11) \<and>
             frame_type (fs ! i) = ''unknown'' \<and> priority (fs ! i) = ''medium'' \<and>
             0 \<le> the (timestamp (fs ! i)) \<and> the (timestamp (fs ! i)) \<le> 30"
      "\<forall>i<9. the (timestamp (fs ! Suc i)) - the (timestamp (fs ! i)) = 30 / 11"
      "\<forall>i<10. \<forall>j<10. i < j \<longrightarrow> the (timestamp (fs ! i)) < the (timestamp (fs ! j))"
    by blast
  from fs(3) have "timestamp (fs ! 0) = Some (30 / 11)" "timestamp (fs ! 9) = Some (300 / 11)"
    by simp_all
  moreover from fs(4) have "the (timestamp (fs ! Suc 0)) - the (timestamp (fs ! 0)) = 30 / 11"
    by simp
  moreover from fs(5) have "the (timestamp (fs ! 0)) < the (timestamp (fs ! 9))"
    by simp
  ultimately show ?thesis using fs(1,2) by (intro exI [of _ fs]) simp
qed

text \<open>
  C7. When pass 1 parses to no item, the stage returns an empty, verified extraction and
  logs the step of pass 1 only, whatever the analysis of pass 2 would answer: pass 2 is
  not run. When the response of pass 1 does not parse, the stage returns an empty,
  unverified extraction.
\<close>

theorem menu_pass1_empty_or_unparsed:
  "extractMenuTwoPass (e\<lparr>pass1_response := Parsed ([], notes)\<rparr>) lg =
     (Inr \<lparr>items = [], verified = True, menuStyleNotes = Some notes\<rparr>,
      log_step (completed_step menu_extraction_pass1) lg) \<and>
   extractMenuTwoPass (e\<lparr>pass1_response := Parse_fails\<rparr>) lg =
     (Inr \<lparr>items = [], verified = False, menuStyleNotes = None\<rparr>,
      log_step (absorbed_step menu_extraction_pass1) lg)"
  by (simp add: extractMenuTwoPass_pass1_empty extractMenuTwoPass_pass1_unparsed)

theorem menu_pass1_empty_or_unparsed_witness:
  "map_sum id verified (fst (extractMenuTwoPass (env_ok\<lparr>pass1_response := Parsed ([], ''none'')\<rparr>)
       (new_logger 1))) = Inr True \<and>
   map_sum id verified (fst (extractMenuTwoPass (env_ok\<lparr>pass1_response := Parse_fails\<rparr>)
       (new_logger 1))) = Inr False \<and>
   map step_name (steps (snd (extractMenuTwoPass (env_ok\<lparr>pass1_response := Parsed ([], ''none'')\<rparr>)
       (new_logger 1)))) = [menu_extraction_pass1]"
  using menu_pass1_empty_or_unparsed [where e = env_ok and lg = "new_logger 1"]
  by (simp add: log_step_def completed_step_def new_logger_def)



section \<open>Properties of the orchestrator\<close>

text \<open>
  The poll loop against the answers themselves: it stops at the first answer that is not
  ``still \<open>PROCESSING\<close>'', throws when that answer is a rejection, and has then polled
  once for every answer up to it.
\<close>

lemma pollFile_first_answer:
  "pollFile PROCESSING as n =
     (case first_answer as of
        None \<Rightarrow> None
      | Some Rejects \<Rightarrow> Some (Inl Poll_failed)
      | Some (Resolves st) \<Rightarrow> Some (Inr (st, n + polls_until_answer as)))"
proof (induction as arbitrary: n)
  case Nil
  then show ?case by (simp add: first_answer_def)
next
  case (Cons a as)
  show ?case
  proof (cases a)
    case Rejects
    then show ?thesis by (simp add: first_answer_def)
  next
    case (Resolves st)
    show ?thesis
    proof (cases "st = PROCESSING")
      case True
      with Resolves Cons.IH [of "n + 1"] show ?thesis
        by (simp add: first_answer_def polls_until_answer_def
            split: option.splits outcome.splits)
    next
      case False
      with Resolves show ?thesis
        by (simp add: first_answer_def polls_until_answer_def pollFile_settled)
    qed
  qed
qed

lemma first_answer_settles:
  "list_ex (\<lambda>a. a \<noteq> Resolves PROCESSING) as \<Longrightarrow> first_answer as \<noteq> None"
  by (auto simp add: first_answer_def find_None_iff list_ex_iff)

lemma first_answer_not_processing: "first_answer as \<noteq> Some (Resolves PROCESSING)"
  by (auto simp add: first_answer_def find_Some_iff)

lemma uploadVideo_returns:
  assumes "poll_settles e"
  shows "\<exists>r lg'. uploadVideo e lg = Some (r, lg') \<and> (isl r \<longleftrightarrow> upload_aborts e) \<and>
     runId lg' = runId lg \<and> usedFallback lg' = usedFallback lg"
proof (cases "uploadFile e")
  case Rejects
  then show ?thesis
    by (simp add: uploadVideo_def upload_aborts_def startStep_def step_fail_def
        update_step_def)
next
  case (Resolves st)
  show ?thesis
  proof (cases "st = PROCESSING")
    case False
    with Resolves show ?thesis
      by (cases st)
        (simp_all add: uploadVideo_def upload_aborts_def startStep_def pollFile_settled
          step_fail_def step_complete_def update_step_def)
  next
    case True
    with assms Resolves have "first_answer (getFile e) \<noteq> None"
      by (simp add: poll_settles_def first_answer_settles)
    then obtain a where a: "first_answer (getFile e) = Some a" by blast
    show ?thesis
    proof (cases a)
      case Rejects
      with a True Resolves show ?thesis
        by (simp add: uploadVideo_def upload_aborts_def startStep_def pollFile_first_answer
            step_fail_def update_step_def)
    next
      case answered: (Resolves st')
      with a first_answer_not_processing [of "getFile e"] have "st' \<noteq> PROCESSING" by auto
      with answered a True Resolves show ?thesis
        by (cases st')
          (simp_all add: uploadVideo_def upload_aborts_def startStep_def
            pollFile_first_answer step_fail_def step_complete_def update_step_def)
    qed
  qed
qed

lemma selectKeyFrames_settle_isl:
  "isl (fst (selectKeyFrames_settle e d i lg)) \<longleftrightarrow> frames_response e = Call_fails"
  by (simp add: selectKeyFrames_settle_def split: response.splits)

lemma extractMenuTwoPass_settle_isl:
  "isl (fst (extractMenuTwoPass_settle e i lg)) \<longleftrightarrow> pass1_response e = Call_fails"
  by (simp add: extractMenuTwoPass_settle_def startStep_def Let_def
      split: response.splits prod.splits)

lemma extractRestaurantInfo_settle_isl:
  "isl (fst (extractRestaurantInfo_settle e i lg)) \<longleftrightarrow> info_response e = Call_fails"
  by (simp add: extractRestaurantInfo_settle_def split: response.splits)

lemma extractStyle_isl:
  "isl (fst (extractStyle e lg)) \<longleftrightarrow> style_response e = Call_fails"
  by (simp add: extractStyle_def startStep_def split: response.splits)

lemma extractFramesFromTimestamps_isl:
  "isl (fst (extractFramesFromTimestamps e fs lg)) \<longleftrightarrow> mkdir e = Rejects"
  by (simp add: extractFramesFromTimestamps_def startStep_def split: outcome.splits)

lemma promise_all3_isl: "isl (promise_all3 a b c) \<longleftrightarrow> isl a \<or> isl b \<or> isl c"
  by (simp add: promise_all3_def split: sum.splits)

lemma update_step_keeps [simp]:
  "runId (update_step i f lg) = runId lg" "usedFallback (update_step i f lg) = usedFallback lg"
  by (simp_all add: update_step_def)

lemma step_tracker_keeps [simp]:
  "runId (step_complete i lg) = runId lg" "usedFallback (step_complete i lg) = usedFallback lg"
  "runId (step_fail i err lg) = runId lg" "usedFallback (step_fail i err lg) = usedFallback lg"
  "runId (addWarning i w lg) = runId lg" "usedFallback (addWarning i w lg) = usedFallback lg"
  by (simp_all add: step_complete_def step_fail_def addWarning_def)

lemma startStep_keeps:
  "startStep nm lg = (i, lg') \<Longrightarrow> runId lg' = runId lg \<and> usedFallback lg' = usedFallback lg"
  by (auto simp add: startStep_def)

lemma selectKeyFrames_settle_keeps:
  "runId (snd (selectKeyFrames_settle e d i lg)) = runId lg \<and>
   usedFallback (snd (selectKeyFrames_settle e d i lg)) = usedFallback lg"
  by (simp add: selectKeyFrames_settle_def split: response.splits)

lemma extractMenuTwoPass_settle_keeps:
  "runId (snd (extractMenuTwoPass_settle e i lg)) = runId lg \<and>
   usedFallback (snd (extractMenuTwoPass_settle e i lg)) = usedFallback lg"
  by (simp add: extractMenuTwoPass_settle_def startStep_def Let_def split: response.splits)

lemma extractRestaurantInfo_settle_keeps:
  "runId (snd (extractRestaurantInfo_settle e i lg)) = runId lg \<and>
   usedFallback (snd (extractRestaurantInfo_settle e i lg)) = usedFallback lg"
  by (simp add: extractRestaurantInfo_settle_def split: response.splits)

lemma extractStyle_keeps:
  "runId (snd (extractStyle e lg)) = runId lg \<and>
   usedFallback (snd (extractStyle e lg)) = usedFallback lg"
  by (simp add: extractStyle_def startStep_def split: response.splits)

lemma extractFramesFromTimestamps_keeps:
  "runId (snd (extractFramesFromTimestamps e fs lg)) = runId lg \<and>
   usedFallback (snd (extractFramesFromTimestamps e fs lg)) = usedFallback lg"
  by (simp add: extractFramesFromTimestamps_def startStep_def split: outcome.splits)

lemma extract_try_outcome:
  "\<exists>out lg'. extract_try e lg = (out, lg') \<and>
     (isl out \<longleftrightarrow>
        getMetadata e = Rejects \<or> frames_response e = Call_fails \<or>
        pass1_response e = Call_fails \<or> info_response e = Call_fails \<or>
        style_response e = Call_fails \<or> mkdir e = Rejects) \<and>
     runId lg' = runId lg \<and> usedFallback lg' = usedFallback lg"
proof (cases "getMetadata e")
  case Rejects
  then show ?thesis
    by (simp add: extract_try_def startStep_def)
next
  case (Resolves metadata)
  obtain ms lg1 where s1: "startStep get_metadata lg = (ms, lg1)"
    by (cases "startStep get_metadata lg") auto
  obtain i_f lg3 where s2: "startStep select_key_frames (step_complete ms lg1) = (i_f, lg3)"
    by (cases "startStep select_key_frames (step_complete ms lg1)") auto
  obtain i_m lg4 where s3: "startStep menu_extraction_pass1 lg3 = (i_m, lg4)"
    by (cases "startStep menu_extraction_pass1 lg3") auto
  obtain i_i lg5 where s4: "startStep extract_restaurant_info lg4 = (i_i, lg5)"
    by (cases "startStep extract_restaurant_info lg4") auto
  obtain rf lg6 where F: "selectKeyFrames_settle e (duration metadata) i_f lg5 = (rf, lg6)"
    by (cases "selectKeyFrames_settle e (duration metadata) i_f lg5") auto
  obtain rm lg7 where M: "extractMenuTwoPass_settle e i_m lg6 = (rm, lg7)"
    by (cases "extractMenuTwoPass_settle e i_m lg6") auto
  obtain ri lg8 where I: "extractRestaurantInfo_settle e i_i lg7 = (ri, lg8)"
    by (cases "extractRestaurantInfo_settle e i_i lg7") auto
  obtain rs lg9 where S: "extractStyle e lg8 = (rs, lg9)"
    by (cases "extractStyle e lg8") auto
  have k1: "runId lg1 = runId lg \<and> usedFallback lg1 = usedFallback lg"
    using startStep_keeps [OF s1] by simp
  have k3: "runId lg3 = runId lg \<and> usedFallback lg3 = usedFallback lg"
    using startStep_keeps [OF s2] k1 by simp
  have k4: "runId lg4 = runId lg \<and> usedFallback lg4 = usedFallback lg"
    using startStep_keeps [OF s3] k3 by simp
  have k5: "runId lg5 = runId lg \<and> usedFallback lg5 = usedFallback lg"
    using startStep_keeps [OF s4] k4 by simp
  have k6: "runId lg6 = runId lg \<and> usedFallback lg6 = usedFallback lg"
    using selectKeyFrames_settle_keeps [of e "duration metadata" i_f lg5] F k5 by simp
  have k7: "runId lg7 = runId lg \<and> usedFallback lg7 = usedFallback lg"
    using extractMenuTwoPass_settle_keeps [of e i_m lg6] M k6 by simp
  have k8: "runId lg8 = runId lg \<and> usedFallback lg8 = usedFallback lg"
    using extractRestaurantInfo_settle_keeps [of e i_i lg7] I k7 by simp
  have k9: "runId lg9 = runId lg \<and> usedFallback lg9 = usedFallback lg"
    using extractStyle_keeps [of e lg8] S k8 by simp
  have f: "isl rf \<longleftrightarrow> frames_response e = Call_fails"
    using selectKeyFrames_settle_isl [of e "duration metadata" i_f lg5] F by simp
  have m: "isl rm \<longleftrightarrow> pass1_response e = Call_fails"
    using extractMenuTwoPass_settle_isl [of e i_m lg6] M by simp
  have i: "isl ri \<longleftrightarrow> info_response e = Call_fails"
    using extractRestaurantInfo_settle_isl [of e i_i lg7] I by simp
  have s: "isl rs \<longleftrightarrow> style_response e = Call_fails"
    using extractStyle_isl [of e lg8] S by simp
  have unfolded: "extract_try e lg =
     (case promise_all3 rf rm ri of
        Inl err \<Rightarrow> (Inl err, lg8)
      | Inr (fs, menuResult, restaurant) \<Rightarrow>
          (case rs of
             Inl err \<Rightarrow> (Inl err, lg9)
           | Inr sty \<Rightarrow>
               (case extractFramesFromTimestamps e fs lg9 of
                  (Inl err, lg) \<Rightarrow> (Inl err, lg)
                | (Inr extractedFrames, lg) \<Rightarrow>
                    (Inr \<lparr>frames = extractedFrames, menuItems = menuResult,
                          restaurantInfo = restaurant, style = sty\<rparr>, lg))))"
    using Resolves s1 s2 s3 s4 F M I S
    by (simp add: extract_try_def split: sum.splits)
  show ?thesis
  proof (cases "promise_all3 rf rm ri")
    case (Inl err)
    then have "isl rf \<or> isl rm \<or> isl ri"
      using promise_all3_isl [of rf rm ri] by simp
    with Inl unfolded f m i k8 show ?thesis by auto
  next
    case (Inr joined)
    obtain fs menuResult restaurant where joined: "joined = (fs, menuResult, restaurant)"
      by (cases joined) auto
    from Inr have "\<not> (isl rf \<or> isl rm \<or> isl ri)"
      using promise_all3_isl [of rf rm ri] by simp
    with f m i have noabort: "frames_response e \<noteq> Call_fails"
      "pass1_response e \<noteq> Call_fails" "info_response e \<noteq> Call_fails"
      by auto
    show ?thesis
    proof (cases rs)
      case (Inl err)
      with s have "style_response e = Call_fails" by auto
      with Inl Inr joined unfolded k9 show ?thesis by simp
    next
      case (Inr sty)
      with s have nosty: "style_response e \<noteq> Call_fails" by auto
      obtain rx lg10 where X: "extractFramesFromTimestamps e fs lg9 = (rx, lg10)"
        by (cases "extractFramesFromTimestamps e fs lg9") auto
      have x: "isl rx \<longleftrightarrow> mkdir e = Rejects"
        using extractFramesFromTimestamps_isl [of e fs lg9] X by simp
      have k10: "runId lg10 = runId lg \<and> usedFallback lg10 = usedFallback lg"
        using extractFramesFromTimestamps_keeps [of e fs lg9] X k9 by simp
      from \<open>promise_all3 rf rm ri = Inr joined\<close> joined Inr X unfolded
      have "extract_try e lg =
          (case rx of Inl err \<Rightarrow> (Inl err, lg10)
           | Inr extractedFrames \<Rightarrow>
               (Inr \<lparr>frames = extractedFrames, menuItems = menuResult,
                     restaurantInfo = restaurant, style = sty\<rparr>, lg10))"
        by (simp split: sum.splits)
      with x k10 noabort nosty Resolves show ?thesis
        by (cases rx) simp_all
    qed
  qed
qed

lemma poll_returns_settled:
  "pollFile st as n = Some p \<Longrightarrow>
     st \<noteq> PROCESSING \<or> list_ex (\<lambda>a. a \<noteq> Resolves PROCESSING) as"
proof (induction as arbitrary: st n)
  case Nil
  then show ?case by (simp split: if_splits)
next
  case (Cons a as)
  show ?case
  proof (cases "st = PROCESSING")
    case False
    then show ?thesis by simp
  next
    case True
    show ?thesis
    proof (cases "a = Resolves PROCESSING")
      case False
      then show ?thesis by simp
    next
      case next_processing: True
      with True Cons.prems have "pollFile PROCESSING as (n + 1) = Some p" by simp
      from Cons.IH [OF this] show ?thesis by simp
    qed
  qed
qed

lemma extract_video_settles:
  assumes "extract_video e w = Some x"
  shows "poll_settles e"
proof (cases "uploadFile e")
  case Rejects
  then show ?thesis by (simp add: poll_settles_def)
next
  case (Resolves st)
  from assms have "uploadVideo e (new_logger (next_uuid w)) \<noteq> None"
    by (auto simp add: extract_video_def uuidv4_def split: option.splits)
  with Resolves obtain p where "pollFile st (getFile e) 0 = Some p"
    by (auto simp add: uploadVideo_def startStep_def split: option.splits)
  from poll_returns_settled [OF this] Resolves show ?thesis
    by (auto simp add: poll_settles_def)
qed

lemma catch_and_save_outcome:
  "catch_and_save fs err lg w =
     (Inl (if fs = Saved then err else Save_failed), fail err lg,
      w\<lparr>store := snd (save fs (fail err lg) (store w))\<rparr>)"
  by (cases fs) (simp_all add: catch_and_save_def save_def Let_def)

lemma save_elsewhere:
  "i \<noteq> runId lg \<Longrightarrow> run_files (snd (save fs lg L)) i = run_files L i"
  by (simp add: run_files_save)

lemma save_here:
  "fs \<noteq> Run_write_fails \<Longrightarrow> run_files (snd (save fs lg L)) (runId lg) = Some lg"
  by (simp add: run_files_save)

text \<open>
  What \<^verbatim>\<open>extract\<close> leaves behind, whenever the readiness poll settles: it returns; it
  throws, and its run is \<open>failed\<close>, exactly when an unguarded call fails; the logger has
  the identifier drawn at the start and no fallback flag; the run file is the logger
  unless the last write of it failed, and the index starts with its summary when the
  last save succeeded.
\<close>

lemma extract_video_outcome:
  assumes "poll_settles e"
  shows "\<exists>out lg L. extract_video e w = Some (out, lg, \<lparr>store = L, next_uuid = Suc (next_uuid w)\<rparr>) \<and>
     (isl out \<longleftrightarrow> primary_aborts e) \<and>
     status lg = (if primary_aborts e then failed else completed) \<and>
     runId lg = next_uuid w \<and> \<not> usedFallback lg \<and>
     (\<not> primary_aborts e \<longrightarrow>
        (\<exists>res. out = Inr res \<and> result lg = Some res \<and> quality lg = Some (assessQuality res)) \<and>
        run_files L (runId lg) = Some lg \<and> hd (listRuns L) = summary_of lg) \<and>
     (primary_aborts e \<longrightarrow>
        (save_in_catch e \<noteq> Run_write_fails \<longrightarrow> run_files L (runId lg) = Some lg) \<and>
        (save_in_catch e = Saved \<longrightarrow>
           listRuns L =
             take 100 (summary_of lg #
               filter (\<lambda>r. summary_runId r \<noteq> runId lg) (listRuns (store w)))))"
proof -
  let ?outcome = ?thesis
  let ?lg0 = "new_logger (next_uuid w)"
  let ?w1 = "w\<lparr>next_uuid := Suc (next_uuid w)\<rparr>"
  from uploadVideo_returns [OF assms, of ?lg0] obtain r lg1 where
    up: "uploadVideo e ?lg0 = Some (r, lg1)" "isl r \<longleftrightarrow> upload_aborts e"
      "runId lg1 = next_uuid w" "\<not> usedFallback lg1"
    by (auto simp add: new_logger_def)
  have caught: "\<And>err lg L0. runId lg = next_uuid w \<Longrightarrow> \<not> usedFallback lg \<Longrightarrow>
      index_file L0 = index_file (store w) \<Longrightarrow> primary_aborts e \<Longrightarrow>
      extract_video e w = Some (catch_and_save (save_in_catch e) err lg (?w1\<lparr>store := L0\<rparr>)) \<Longrightarrow>
      ?outcome"
  proof -
    fix err lg L0
    assume lg: "runId lg = next_uuid w" "\<not> usedFallback lg"
      and L0: "index_file L0 = index_file (store w)" and ab: "primary_aborts e"
      and ex: "extract_video e w =
        Some (catch_and_save (save_in_catch e) err lg (?w1\<lparr>store := L0\<rparr>))"
    let ?lg = "fail err lg"
    let ?L = "snd (save (save_in_catch e) ?lg L0)"
    have id: "runId ?lg = next_uuid w" "\<not> usedFallback ?lg" "status ?lg = failed"
      using lg by (simp_all add: fail_def)
    have same_index: "listRuns L0 = listRuns (store w)"
      using L0 by (simp add: listRuns_def)
    have "extract_video e w =
        Some (Inl (if save_in_catch e = Saved then err else Save_failed), ?lg,
              \<lparr>store = ?L, next_uuid = Suc (next_uuid w)\<rparr>)"
      using ex by (simp add: catch_and_save_outcome)
    moreover have "save_in_catch e \<noteq> Run_write_fails \<longrightarrow> run_files ?L (runId ?lg) = Some ?lg"
      by (simp add: save_here)
    moreover have "save_in_catch e = Saved \<longrightarrow>
        listRuns ?L = take 100 (summary_of ?lg #
               filter (\<lambda>r. summary_runId r \<noteq> runId ?lg) (listRuns (store w)))"
      by (simp add: listRuns_save same_index)
    ultimately show ?outcome
      using ab id
      by (intro exI [of _ "Inl (if save_in_catch e = Saved then err else Save_failed)"]
          exI [of _ ?lg] exI [of _ ?L])
        simp
  qed
  show ?thesis
  proof (cases r)
    case (Inl err)
    with up(1) have "extract_video e w =
        Some (catch_and_save (save_in_catch e) err lg1 (?w1\<lparr>store := store w\<rparr>))"
      by (simp add: extract_video_def uuidv4_def)
    moreover from Inl up(2) have "primary_aborts e"
      by (simp add: primary_aborts_def)
    ultimately show ?thesis
      using up(3,4) by (intro caught [of lg1 "store w" err]) simp_all
  next
    case (Inr uploaded)
    obtain out2 lg2 where t: "extract_try e lg1 = (out2, lg2)"
      by (cases "extract_try e lg1") auto
    from t extract_try_outcome [of e lg1] up(3,4)
    have keep2: "runId lg2 = next_uuid w" "\<not> usedFallback lg2"
      and abort2: "isl out2 \<longleftrightarrow>
       getMetadata e = Rejects \<or> frames_response e = Call_fails \<or>
       pass1_response e = Call_fails \<or> info_response e = Call_fails \<or>
       style_response e = Call_fails \<or> mkdir e = Rejects"
      by simp_all
    from Inr up(2) have noup: "\<not> upload_aborts e" by simp
    show ?thesis
    proof (cases out2)
      case (Inl err)
      with Inr up(1) t have "extract_video e w =
          Some (catch_and_save (save_in_catch e) err lg2 (?w1\<lparr>store := store w\<rparr>))"
        by (simp add: extract_video_def uuidv4_def)
      moreover from Inl abort2 have "primary_aborts e"
        by (auto simp add: primary_aborts_def)
      ultimately show ?thesis
        using keep2 by (intro caught [of lg2 "store w" err]) simp_all
    next
      case res: (Inr res)
      let ?lgc = "complete_run res lg2"
      have idc: "runId ?lgc = next_uuid w" "\<not> usedFallback ?lgc"
        using keep2 by (simp_all add: complete_run_def)
      from res abort2 noup have stages_ok: "\<not> (upload_aborts e \<or> getMetadata e = Rejects \<or>
          frames_response e = Call_fails \<or> pass1_response e = Call_fails \<or>
          info_response e = Call_fails \<or> style_response e = Call_fails \<or> mkdir e = Rejects)"
        by auto
      show ?thesis
      proof (cases "save_in_try e = Saved")
        case True
        let ?L = "snd (save Saved ?lgc (store w))"
        from True res Inr up(1) t
        have "extract_video e w =
            Some (Inr res, ?lgc, \<lparr>store = ?L, next_uuid = Suc (next_uuid w)\<rparr>)"
          by (simp add: extract_video_def uuidv4_def Let_def save_def)
        moreover from True stages_ok have "\<not> primary_aborts e"
          by (simp add: primary_aborts_def)
        moreover have "run_files ?L (runId ?lgc) = Some ?lgc" "hd (listRuns ?L) = summary_of ?lgc"
          by (simp_all add: save_here listRuns_save)
        ultimately show ?thesis
          using idc
          by (intro exI [of _ "Inr res"] exI [of _ ?lgc] exI [of _ ?L])
            (simp add: complete_run_def)
      next
        case False
        let ?L0 = "snd (save (save_in_try e) ?lgc (store w))"
        have rejected: "fst (save (save_in_try e) ?lgc (store w)) = Inl Save_failed"
          using False by (cases "save_in_try e") (simp_all add: save_def)
        from res Inr up(1) t rejected
        have "extract_video e w =
            Some (catch_and_save (save_in_catch e) Save_failed ?lgc (?w1\<lparr>store := ?L0\<rparr>))"
          by (simp add: extract_video_def uuidv4_def Let_def split_beta)
        moreover from False have "primary_aborts e"
          by (simp add: primary_aborts_def)
        moreover have "index_file ?L0 = index_file (store w)"
          using False by (simp add: index_file_failed_save)
        ultimately show ?thesis
          using idc by (intro caught [of ?lgc ?L0 Save_failed]) simp_all
      qed
    qed
  qed
qed


lemma extract_video_probe_fails:
  "extract_video env_probe_fails world0 =
      Some (Inl Metadata_failed,
            fail Metadata_failed
              (log_step (failed_step get_metadata Metadata_failed)
                (log_step (completed_step upload_video) (new_logger 1))),
            \<lparr>store = snd (save Saved (fail Metadata_failed
              (log_step (failed_step get_metadata Metadata_failed)
                (log_step (completed_step upload_video) (new_logger 1)))) empty_ledger),
             next_uuid = 2\<rparr>)"
  by (simp add: extract_video_def uploadVideo_def extract_try_def env_probe_fails_def
      env_ok_def startStep_def step_complete_def step_fail_def update_step_def
      new_logger_def log_step_def failed_step_def completed_step_def Let_def
      uuidv4_def world0_def catch_and_save_outcome)

lemma extractFrameBased_probe_fails:
  "extractFrameBased env_probe_fails =
      Inr (convert [''frame_0001.jpg'', ''frame_0002.jpg''] vision_example)"
  by (simp add: extractFrameBased_def env_probe_fails_def env_ok_def)



text \<open>
  C4, as amended. Suppose the primary pipeline throws \<open>err\<close>. Then \<^verbatim>\<open>extractWithFallback\<close>
  returns. The original run is \<open>failed\<close>, and it is stored under its identifier unless
  the write of its run file failed. A second run is made with another identifier,
  \<open>usedFallback\<close> set and \<open>err\<close> as \<open>nativeError\<close>. The orchestrator throws exactly when the
  frame-based pipeline throws or the save of the completed fallback run rejects; the
  second run is then \<open>failed\<close>, and otherwise \<open>completed\<close>. When the frame-based pipeline
  succeeds and that save succeeds, the orchestrator returns the result (frames, menu,
  restaurant info and style) with the new identifier, the second run is stored with
  that result and its quality report, and, when the original run was saved too, the
  index starts with the summaries of the second and of the original run.
\<close>

theorem fallback_after_primary_throws:
  assumes "thrown_or_result (extract_video e w) = Some (Inl err)"
  shows "\<exists>primary out lg w'.
     logger_of (extract_video e w) = Some primary \<and>
     status primary = failed \<and> \<not> usedFallback primary \<and>
     extractWithFallback e w = Some (out, lg, w') \<and>
     runId lg \<noteq> runId primary \<and> usedFallback lg \<and> nativeError lg = Some err \<and>
     (save_in_catch e \<noteq> Run_write_fails \<longrightarrow>
        run_files (store w') (runId primary) = Some primary) \<and>
     (isl out \<longleftrightarrow> isl (extractFrameBased e) \<or> fallback_save_in_try e \<noteq> Saved) \<and>
     (status lg = failed \<longleftrightarrow> isl out) \<and> (status lg = completed \<longleftrightarrow> \<not> isl out) \<and>
     (case extractFrameBased e of
        Inl fallbackErr \<Rightarrow>
          run_error lg = Some fallbackErr \<and>
          (fallback_save_in_catch e = Saved \<longrightarrow>
             out = Inl fallbackErr \<and> run_files (store w') (runId lg) = Some lg)
      | Inr res \<Rightarrow>
          result lg = Some res \<and> quality lg = Some (assessQuality res) \<and>
          (fallback_save_in_try e = Saved \<longrightarrow>
             out = Inr (res, runId lg) \<and> run_files (store w') (runId lg) = Some lg \<and>
             (save_in_catch e = Saved \<longrightarrow>
                take 2 (listRuns (store w')) = [summary_of lg, summary_of primary])))"
proof -
  from assms obtain x where x: "extract_video e w = Some x" "fst x = Inl err"
    by (auto simp add: thrown_or_result_def)
  from extract_video_outcome [OF extract_video_settles [OF x(1)], of w] x
  obtain primary L where
    p: "extract_video e w = Some (Inl err, primary, \<lparr>store = L, next_uuid = Suc (next_uuid w)\<rparr>)"
      "primary_aborts e" "status primary = failed" "runId primary = next_uuid w"
      "\<not> usedFallback primary"
      "save_in_catch e \<noteq> Run_write_fails \<longrightarrow> run_files L (runId primary) = Some primary"
      "save_in_catch e = Saved \<longrightarrow>
         listRuns L = take 100 (summary_of primary #
               filter (\<lambda>r. summary_runId r \<noteq> runId primary) (listRuns (store w)))"
    by (auto split: if_splits)
  let ?w1 = "\<lparr>store = L, next_uuid = Suc (Suc (next_uuid w))\<rparr>"
  define lg0 where
    "lg0 = (new_logger (Suc (next_uuid w)))\<lparr>usedFallback := True, nativeError := Some err\<rparr>"
  have lg0: "runId lg0 = Suc (next_uuid w)" "usedFallback lg0" "nativeError lg0 = Some err"
    by (simp_all add: lg0_def new_logger_def)
  have prim: "logger_of (extract_video e w) = Some primary"
    using p(1) by (simp add: logger_of_def)
  have kept: "\<And>fs lg L0. runId lg = Suc (next_uuid w) \<Longrightarrow>
      run_files (snd (save fs lg L0)) (runId primary) = run_files L0 (runId primary)"
    using p(4) by (simp add: save_elsewhere)
  have front: "\<And>lg. runId lg = Suc (next_uuid w) \<Longrightarrow> save_in_catch e = Saved \<Longrightarrow>
      take 2 (listRuns (snd (save Saved lg L))) = [summary_of lg, summary_of primary]"
    using p(4,7) by (simp add: listRuns_save summary_of_def)
  show ?thesis
  proof (cases "extractFrameBased e")
    case (Inl fallbackErr)
    let ?lg = "fail fallbackErr lg0"
    let ?L' = "snd (save (fallback_save_in_catch e) ?lg L)"
    let ?out = "Inl (if fallback_save_in_catch e = Saved then fallbackErr else Save_failed)
      :: error + extraction_result \<times> nat"
    have id: "runId ?lg = Suc (next_uuid w)" "usedFallback ?lg" "nativeError ?lg = Some err"
      "status ?lg = failed" "run_error ?lg = Some fallbackErr"
      using lg0 by (simp_all add: fail_def)
    have "extractWithFallback e w = Some (?out, ?lg, ?w1\<lparr>store := ?L'\<rparr>)"
      using p(1) Inl
      by (simp add: extractWithFallback_def uuidv4_def lg0_def Let_def catch_and_save_outcome)
    moreover have "save_in_catch e \<noteq> Run_write_fails \<longrightarrow>
        run_files ?L' (runId primary) = Some primary"
      using kept [OF id(1)] p(6) by simp
    moreover have "fallback_save_in_catch e = Saved \<longrightarrow> run_files ?L' (runId ?lg) = Some ?lg"
      by (simp add: save_here)
    ultimately show ?thesis
      using Inl prim p(3,4,5) id
      by (intro exI [of _ primary] exI [of _ ?out] exI [of _ ?lg]
          exI [of _ "?w1\<lparr>store := ?L'\<rparr>"])
        simp
  next
    case (Inr res)
    let ?lgc = "complete_run res lg0"
    have idc: "runId ?lgc = Suc (next_uuid w)" "usedFallback ?lgc" "nativeError ?lgc = Some err"
      "status ?lgc = completed" "result ?lgc = Some res"
      "quality ?lgc = Some (assessQuality res)"
      using lg0 by (simp_all add: complete_run_def)
    show ?thesis
    proof (cases "fallback_save_in_try e = Saved")
      case True
      let ?L' = "snd (save Saved ?lgc L)"
      let ?out = "Inr (res, Suc (next_uuid w)) :: error + extraction_result \<times> nat"
      have "extractWithFallback e w = Some (?out, ?lgc, ?w1\<lparr>store := ?L'\<rparr>)"
        using p(1) Inr True idc(1)
        by (simp add: extractWithFallback_def uuidv4_def lg0_def Let_def save_def)
      moreover have "save_in_catch e \<noteq> Run_write_fails \<longrightarrow>
          run_files ?L' (runId primary) = Some primary"
        using kept [OF idc(1)] p(6) by simp
      moreover have "run_files ?L' (runId ?lgc) = Some ?lgc"
        by (simp add: save_here)
      moreover have "save_in_catch e = Saved \<longrightarrow>
          take 2 (listRuns ?L') = [summary_of ?lgc, summary_of primary]"
        using front [OF idc(1)] by simp
      ultimately show ?thesis
        using Inr True prim p(3,4,5) idc
        by (intro exI [of _ primary] exI [of _ ?out] exI [of _ ?lgc]
            exI [of _ "?w1\<lparr>store := ?L'\<rparr>"])
          simp
    next
      case False
      let ?L0 = "snd (save (fallback_save_in_try e) ?lgc L)"
      let ?lg = "fail Save_failed ?lgc"
      let ?L' = "snd (save (fallback_save_in_catch e) ?lg ?L0)"
      let ?out = "Inl (if fallback_save_in_catch e = Saved then Save_failed else Save_failed)
        :: error + extraction_result \<times> nat"
      have rejected: "fst (save (fallback_save_in_try e) ?lgc L) = Inl Save_failed"
        using False by (cases "fallback_save_in_try e") (simp_all add: save_def)
      have id: "runId ?lg = Suc (next_uuid w)" "usedFallback ?lg" "nativeError ?lg = Some err"
        "status ?lg = failed" "result ?lg = Some res" "quality ?lg = Some (assessQuality res)"
        using idc by (simp_all add: fail_def)
      have "extractWithFallback e w = Some (?out, ?lg, ?w1\<lparr>store := ?L'\<rparr>)"
        using p(1) Inr rejected
        by (simp add: extractWithFallback_def uuidv4_def lg0_def Let_def split_beta
            catch_and_save_outcome)
      moreover have "save_in_catch e \<noteq> Run_write_fails \<longrightarrow>
          run_files ?L' (runId primary) = Some primary"
        using kept [OF id(1), of "fallback_save_in_catch e" ?L0]
          kept [OF idc(1), of "fallback_save_in_try e" L] p(6)
        by simp
      ultimately show ?thesis
        using Inr False prim p(3,4,5) id
        by (intro exI [of _ primary] exI [of _ ?out] exI [of _ ?lg]
            exI [of _ "?w1\<lparr>store := ?L'\<rparr>"])
          simp
    qed
  qed
qed

text \<open>
  C4 as stated fails when the ledger cannot be written. The probe fails and the write
  of the failed run is rejected: the original run is not stored. The frame-based
  pipeline then returns a result, the write of the completed fallback run is rejected,
  and the caller gets an error although the fallback attempt did not throw.
\<close>

theorem fallback_ledger_write_counterexample:
  "thrown_or_result (extract_video env_ledger_fails world0) = Some (Inl Save_failed) \<and>
   map_option runId (logger_of (extract_video env_ledger_fails world0)) = Some 1 \<and>
   extractFrameBased env_ledger_fails =
     Inr (convert [''frame_0001.jpg'', ''frame_0002.jpg''] vision_example) \<and>
   thrown_or_result (extractWithFallback env_ledger_fails world0) = Some (Inl Save_failed) \<and>
   stored_run 1 (extractWithFallback env_ledger_fails world0) = None"
proof -
  have fb: "extractFrameBased env_ledger_fails =
      Inr (convert [''frame_0001.jpg'', ''frame_0002.jpg''] vision_example)"
    by (simp add: extractFrameBased_def env_ledger_fails_def env_probe_fails_def env_ok_def)
  have primary: "extract_video env_ledger_fails world0 =
      Some (Inl Save_failed,
            fail Metadata_failed
              (log_step (failed_step get_metadata Metadata_failed)
                (log_step (completed_step upload_video) (new_logger 1))),
            \<lparr>store = empty_ledger, next_uuid = 2\<rparr>)"
    by (simp add: extract_video_def uploadVideo_def extract_try_def env_ledger_fails_def
        env_probe_fails_def env_ok_def startStep_def step_complete_def step_fail_def
        update_step_def new_logger_def log_step_def failed_step_def completed_step_def
        Let_def uuidv4_def world0_def catch_and_save_outcome save_def)
  have "thrown_or_result (extractWithFallback env_ledger_fails world0) = Some (Inl Save_failed) \<and>
      stored_run 1 (extractWithFallback env_ledger_fails world0) = None"
    using fb primary
    by (simp add: extractWithFallback_def uuidv4_def Let_def catch_and_save_outcome save_def
        env_ledger_fails_def env_probe_fails_def env_ok_def thrown_or_result_def
        stored_run_def ledger_of_def empty_ledger_def complete_run_def fail_def
        new_logger_def)
  with fb primary show ?thesis
    by (simp add: thrown_or_result_def logger_of_def fail_def log_step_def new_logger_def)
qed

theorem fallback_after_primary_throws_witness:
  "map_option runId (logger_of (extract_video env_probe_fails world0)) = Some 1 \<and>
   map_option status (logger_of (extract_video env_probe_fails world0)) = Some failed \<and>
   map_option runId (logger_of (extractWithFallback env_probe_fails world0)) = Some 2 \<and>
   map_option status (logger_of (extractWithFallback env_probe_fails world0)) = Some completed \<and>
   map_option usedFallback (logger_of (extractWithFallback env_probe_fails world0)) = Some True \<and>
   thrown_or_result (extractWithFallback env_probe_fails world0) =
     Some (Inr (convert [''frame_0001.jpg'', ''frame_0002.jpg''] vision_example, 2)) \<and>
   map_option status (stored_run 1 (extractWithFallback env_probe_fails world0)) = Some failed \<and>
   map_option status (stored_run 2 (extractWithFallback env_probe_fails world0)) = Some completed \<and>
   map_option (map summary_runId \<circ> take 2 \<circ> listRuns)
     (ledger_of (extractWithFallback env_probe_fails world0)) = Some [2, 1] \<and>
   map_option (map summary_status \<circ> take 2 \<circ> listRuns)
     (ledger_of (extractWithFallback env_probe_fails world0)) = Some [completed, failed]"
proof -
  have thrown: "thrown_or_result (extract_video env_probe_fails world0) =
      Some (Inl Metadata_failed)"
    by (simp add: extract_video_probe_fails thrown_or_result_def)
  have first_id: "map_option runId (logger_of (extract_video env_probe_fails world0)) = Some 1"
    by (simp add: extract_video_probe_fails logger_of_def fail_def log_step_def
        new_logger_def)
  have saves: "save_in_catch env_probe_fails = Saved"
    "fallback_save_in_try env_probe_fails = Saved"
    by (simp_all add: env_probe_fails_def env_ok_def)
  have second_id: "map_option runId (logger_of (extractWithFallback env_probe_fails world0)) =
      Some 2"
    by (simp add: extractWithFallback_def extract_video_probe_fails
        extractFrameBased_probe_fails saves uuidv4_def Let_def save_def complete_run_def
        new_logger_def logger_of_def)
  note fb = extractFrameBased_probe_fails
  from fallback_after_primary_throws [OF thrown] obtain primary out lg w' where
    r: "logger_of (extract_video env_probe_fails world0) = Some primary"
      "status primary = failed" "\<not> usedFallback primary"
      "extractWithFallback env_probe_fails world0 = Some (out, lg, w')"
      "runId lg \<noteq> runId primary" "usedFallback lg"
      "save_in_catch env_probe_fails \<noteq> Run_write_fails \<longrightarrow>
        run_files (store w') (runId primary) = Some primary"
      "status lg = completed \<longleftrightarrow> \<not> isl out"
      "case extractFrameBased env_probe_fails of
        Inl fallbackErr \<Rightarrow>
          run_error lg = Some fallbackErr \<and>
          (fallback_save_in_catch env_probe_fails = Saved \<longrightarrow>
             out = Inl fallbackErr \<and> run_files (store w') (runId lg) = Some lg)
      | Inr res \<Rightarrow>
          result lg = Some res \<and> quality lg = Some (assessQuality res) \<and>
          (fallback_save_in_try env_probe_fails = Saved \<longrightarrow>
             out = Inr (res, runId lg) \<and> run_files (store w') (runId lg) = Some lg \<and>
             (save_in_catch env_probe_fails = Saved \<longrightarrow>
                take 2 (listRuns (store w')) = [summary_of lg, summary_of primary]))"
    by blast
  from r(1) first_id have id1: "runId primary = 1" by simp
  from r(4) second_id have id2: "runId lg = 2" by (simp add: logger_of_def)
  from r(9) fb saves have o: "out = Inr (convert [''frame_0001.jpg'', ''frame_0002.jpg''] vision_example, runId lg)"
    "run_files (store w') (runId lg) = Some lg"
    "take 2 (listRuns (store w')) = [summary_of lg, summary_of primary]"
    by simp_all
  from r(7) saves have stored1: "run_files (store w') (runId primary) = Some primary" by simp
  from o(1) r(8) have finished: "status lg = completed" by simp
  show ?thesis
    using r(1,2,3,4,6) id1 id2 o stored1 finished
    by (auto simp add: logger_of_def thrown_or_result_def ledger_of_def stored_run_def
        summary_of_def)
qed


end
